theory Spec2Isabelle
  imports Complex_Main
begin

section \<open>JavaScript numbers\<close>

text \<open>
  Every number of the program is a JavaScript number, a binary64 value. A finite number
  is modelled by the real it denotes, and the two zeros are one; the three special
  values are explicit, because the program divides by standard deviations and lengths
  that can be zero and JavaScript answers such a division with \<open>NaN\<close> or an infinity
  instead of raising. The operations \<open>js_add\<close> to \<open>js_div\<close> below return the exact
  result on finite numbers; the rounding of binary64 is \<open>rnd\<close>, further down, and the
  operations \<open>fl_add\<close> to \<open>fl_div\<close> round the exact result as the machine does.
\<close>

datatype jsnum = Num real | PosInf | NegInf | NaN

fun js_add :: "jsnum \<Rightarrow> jsnum \<Rightarrow> jsnum" where
  "js_add NaN _ = NaN"
| "js_add _ NaN = NaN"
| "js_add (Num a) (Num b) = Num (a + b)"
| "js_add PosInf NegInf = NaN"
| "js_add NegInf PosInf = NaN"
| "js_add PosInf _ = PosInf"
| "js_add _ PosInf = PosInf"
| "js_add NegInf _ = NegInf"
| "js_add _ NegInf = NegInf"

fun js_neg :: "jsnum \<Rightarrow> jsnum" where
  "js_neg (Num a) = Num (- a)"
| "js_neg PosInf = NegInf"
| "js_neg NegInf = PosInf"
| "js_neg NaN = NaN"

definition js_sub :: "jsnum \<Rightarrow> jsnum \<Rightarrow> jsnum" where
  "js_sub a b = js_add a (js_neg b)"

text \<open>The sign of a number that is not \<open>NaN\<close>: \<open>-1\<close>, \<open>0\<close> or \<open>1\<close>.\<close>

fun js_sign :: "jsnum \<Rightarrow> int" where
  "js_sign (Num a) = (if a < 0 then - 1 else if a = 0 then 0 else 1)"
| "js_sign PosInf = 1"
| "js_sign NegInf = - 1"
| "js_sign NaN = 0"

definition js_inf :: "int \<Rightarrow> jsnum" where
  "js_inf s = (if s < 0 then NegInf else if s = 0 then NaN else PosInf)"

fun js_mul :: "jsnum \<Rightarrow> jsnum \<Rightarrow> jsnum" where
  "js_mul NaN _ = NaN"
| "js_mul _ NaN = NaN"
| "js_mul (Num a) (Num b) = Num (a * b)"
| "js_mul a b = js_inf (js_sign a * js_sign b)"

text \<open>
  Division: a finite number over zero is an infinity of the dividend's sign, and
  \<open>0 / 0\<close> and \<open>Infinity / Infinity\<close> are \<open>NaN\<close>.
\<close>

fun js_div :: "jsnum \<Rightarrow> jsnum \<Rightarrow> jsnum" where
  "js_div NaN _ = NaN"
| "js_div _ NaN = NaN"
| "js_div (Num a) (Num b) = (if b = 0 then js_inf (js_sign (Num a)) else Num (a / b))"
| "js_div (Num a) _ = Num 0"
| "js_div a (Num b) = js_inf (js_sign a * (if b < 0 then - 1 else 1))"
| "js_div _ _ = NaN"

fun js_lt :: "jsnum \<Rightarrow> jsnum \<Rightarrow> bool" where
  "js_lt NaN _ = False"
| "js_lt _ NaN = False"
| "js_lt (Num a) (Num b) = (a < b)"
| "js_lt NegInf NegInf = False"
| "js_lt NegInf _ = True"
| "js_lt PosInf _ = False"
| "js_lt _ PosInf = True"
| "js_lt _ NegInf = False"

fun js_le :: "jsnum \<Rightarrow> jsnum \<Rightarrow> bool" where
  "js_le NaN _ = False"
| "js_le _ NaN = False"
| "js_le a b = (a = b \<or> js_lt a b)"

definition js_gt :: "jsnum \<Rightarrow> jsnum \<Rightarrow> bool" where
  "js_gt a b = js_lt b a"

definition js_ge :: "jsnum \<Rightarrow> jsnum \<Rightarrow> bool" where
  "js_ge a b = js_le b a"

text \<open>\<open>a || b\<close> on numbers: \<open>0\<close> and \<open>NaN\<close> are the falsy numbers.\<close>

definition js_or :: "jsnum \<Rightarrow> jsnum \<Rightarrow> jsnum" where
  "js_or a b = (if a = Num 0 \<or> a = NaN then b else a)"

fun Math_sqrt :: "jsnum \<Rightarrow> jsnum" where
  "Math_sqrt (Num a) = (if a < 0 then NaN else Num (sqrt a))"
| "Math_sqrt PosInf = PosInf"
| "Math_sqrt NegInf = NaN"
| "Math_sqrt NaN = NaN"

fun Math_abs :: "jsnum \<Rightarrow> jsnum" where
  "Math_abs (Num a) = Num \<bar>a\<bar>"
| "Math_abs PosInf = PosInf"
| "Math_abs NegInf = PosInf"
| "Math_abs NaN = NaN"

text \<open>\<open>Math.pow(x, 2)\<close>, the only power the program takes.\<close>

definition Math_pow2 :: "jsnum \<Rightarrow> jsnum" where
  "Math_pow2 x = js_mul x x"

text \<open>\<open>Math.round\<close> rounds to the nearest integer, a half upwards.\<close>

fun Math_round :: "jsnum \<Rightarrow> jsnum" where
  "Math_round (Num a) = Num (of_int \<lfloor>a + 1 / 2\<rfloor>)"
| "Math_round x = x"

definition Math_max :: "jsnum \<Rightarrow> jsnum \<Rightarrow> jsnum" where
  "Math_max a b = (if a = NaN \<or> b = NaN then NaN else if js_lt a b then b else a)"

definition Math_min :: "jsnum \<Rightarrow> jsnum \<Rightarrow> jsnum" where
  "Math_min a b = (if a = NaN \<or> b = NaN then NaN else if js_lt b a then b else a)"

subsection \<open>Rounding to binary64\<close>

text \<open>
  \<open>fl x\<close> is the binary64 value nearest to the real \<open>x\<close>, ties to the even
  significand. With \<open>e\<close> the binade of \<open>x\<close> (at least \<open>-1022\<close>, below which the
  subnormal numbers keep the spacing \<open>2^-1074\<close>), the values near \<open>x\<close> are the
  multiples of \<open>2^(e - 52)\<close>; a result of magnitude \<open>2^1024\<close> or more is an infinity.
  \<open>pow2 e\<close> is \<open>2^e\<close> for an integer \<open>e\<close> and \<open>rne\<close> rounds a real to the nearest
  integer, a half to the even one.
\<close>

definition pow2 :: "int \<Rightarrow> real" where
  "pow2 e = (if 0 \<le> e then 2 ^ nat e else 1 / 2 ^ nat (- e))"

definition rne :: "real \<Rightarrow> int" where
  "rne x = (let f = \<lfloor>x\<rfloor>
            in if x - of_int f < 1 / 2 then f
               else if 1 / 2 < x - of_int f then f + 1
               else if even f then f else f + 1)"

definition binade :: "real \<Rightarrow> int" where
  "binade x = max \<lfloor>log 2 \<bar>x\<bar>\<rfloor> (- 1022)"

definition fl :: "real \<Rightarrow> jsnum" where
  "fl x = (let q = pow2 (binade x - 52);
               y = of_int (rne (\<bar>x\<bar> / q)) * q
           in if pow2 1024 \<le> y then (if x < 0 then NegInf else PosInf)
              else if x < 0 then Num (- y) else Num y)"

fun rnd :: "jsnum \<Rightarrow> jsnum" where
  "rnd (Num x) = fl x"
| "rnd PosInf = PosInf"
| "rnd NegInf = NegInf"
| "rnd NaN = NaN"

definition fl_add :: "jsnum \<Rightarrow> jsnum \<Rightarrow> jsnum" where
  "fl_add a b = rnd (js_add a b)"

definition fl_sub :: "jsnum \<Rightarrow> jsnum \<Rightarrow> jsnum" where
  "fl_sub a b = rnd (js_sub a b)"

definition fl_mul :: "jsnum \<Rightarrow> jsnum \<Rightarrow> jsnum" where
  "fl_mul a b = rnd (js_mul a b)"

definition fl_div :: "jsnum \<Rightarrow> jsnum \<Rightarrow> jsnum" where
  "fl_div a b = rnd (js_div a b)"

text \<open>
  Rounding is written out in the functions whose result is compared with zero or with a
  threshold after sums and quotients of the samples: \<open>Math.mean\<close>, \<open>Math.std\<close>,
  \<open>normalizeSignal\<close>, \<open>preprocessSignals\<close> and \<open>calculateOverallConfidence\<close>. There a
  decimal literal such as \<open>0.6\<close> is \<open>fl (6 / 10)\<close>, the binary64 value it denotes. The
  other functions are written with the exact operations.
\<close>

text \<open>
  The two helpers the program adds to \<open>Math\<close>; \<open>arr.length || 1\<close> is the divisor,
  so the mean of the empty array is \<open>0 / 1\<close>. \<open>Math.pow(b - mean, 2)\<close> is the
  rounded square.
\<close>

definition length_or_1 :: "'a list \<Rightarrow> jsnum" where
  "length_or_1 arr = (if length arr = 0 then Num 1 else Num (real (length arr)))"

definition Math_mean :: "jsnum list \<Rightarrow> jsnum" where
  "Math_mean arr = fl_div (foldl fl_add (Num 0) arr) (length_or_1 arr)"

definition Math_std :: "jsnum list \<Rightarrow> jsnum" where
  "Math_std arr =
     (let mean = Math_mean arr;
          variance = fl_div (foldl (\<lambda>a b. fl_add a (rnd (Math_pow2 (fl_sub b mean)))) (Num 0) arr)
                            (length_or_1 arr)
      in rnd (Math_sqrt variance))"

section \<open>SpO2 processor\<close>

text \<open>
  One sample of the rPPG signal is the array of the three channel means of a frame;
  \<open>rgb0\<close>, \<open>rgb1\<close> and \<open>rgb2\<close> read \<open>rgb[0]\<close>, \<open>rgb[1]\<close> and \<open>rgb[2]\<close>.
  An object of the program is a record; a field carries a suffix where its name is
  also the name of a variable or of a field of another object (\<open>value_vm\<close>,
  \<open>value_st\<close> and \<open>value_ox\<close> are the \<open>value\<close> of a vital metric, of the stress level
  and of the SpO2 result).
\<close>

type_synonym rgb = "jsnum \<times> jsnum \<times> jsnum"

definition rgb0 :: "rgb \<Rightarrow> jsnum" where
  "rgb0 rgb = fst rgb"

definition rgb1 :: "rgb \<Rightarrow> jsnum" where
  "rgb1 rgb = fst (snd rgb)"

definition rgb2 :: "rgb \<Rightarrow> jsnum" where
  "rgb2 rgb = snd (snd rgb)"

definition normalizeSignal :: "jsnum list \<Rightarrow> jsnum list" where
  "normalizeSignal signal =
     (let mean = Math_mean signal;
          std = Math_std signal
      in map (\<lambda>value. fl_div (fl_sub value mean) std) signal)"

record preprocessed =
  redSignal_out :: "jsnum list"
  infraredSignal_out :: "jsnum list"

text \<open>
  \<open>calculateSpO2\<close> is the one function with a \<open>try\<close> block, so its argument is
  modelled with the values that make the block raise: an argument that is not an array
  (\<open>undefined\<close>, \<open>null\<close>), on which \<open>rppgSignal.map\<close> raises a \<open>TypeError\<close>, and an
  array with an element that is \<open>null\<close> or \<open>undefined\<close> (\<open>None\<close>), on which \<open>rgb[0]\<close>
  raises a \<open>TypeError\<close>. An exception is \<open>Inl\<close>.
\<close>

datatype js_exception = TypeError

datatype rppg_arg = Not_an_array | Frames "rgb option list"

definition preprocessSignals :: "rgb option list \<Rightarrow> js_exception + preprocessed" where
  "preprocessSignals rppgSignal =
     (case those rppgSignal of
        None \<Rightarrow> Inl TypeError
      | Some frames \<Rightarrow>
          (let redSignal = map rgb0 frames;
               infraredSignal =
                 map (\<lambda>rgb. fl_add (fl_mul (rgb0 rgb) (fl (6 / 10)))
                                  (fl_mul (rgb2 rgb) (fl (4 / 10))))
                     frames;
               normalizedRed = normalizeSignal redSignal;
               normalizedIR = normalizeSignal infraredSignal
           in Inr \<lparr>redSignal_out = normalizedRed, infraredSignal_out = normalizedIR\<rparr>))"

text \<open>
  \<open>movingAverage\<close>: for every index \<open>i\<close> the inner loop runs \<open>j\<close> from
  \<open>max(0, i - windowSize + 1)\<close> to \<open>i\<close>, adding \<open>signal[j]\<close> to \<open>sum\<close> (here \<open>acc\<close>)
  and one to \<open>count\<close>; the pair is the loop's state. The window size is a natural number (the
  callers pass 5 and 30), so the lower end is the truncating \<open>Suc i - windowSize\<close>.
\<close>

definition window_sum :: "jsnum list \<Rightarrow> nat \<Rightarrow> nat \<Rightarrow> jsnum \<times> nat" where
  "window_sum signal windowSize i =
     foldl (\<lambda>(acc, count) j. (js_add acc (signal ! j), Suc count)) (Num 0, 0)
           [Suc i - windowSize ..< Suc i]"

definition movingAverage :: "jsnum list \<Rightarrow> nat \<Rightarrow> jsnum list" where
  "movingAverage signal windowSize =
     map (\<lambda>i. case window_sum signal windowSize i of
                 (acc, count) \<Rightarrow> js_div acc (Num (real count)))
         [0 ..< length signal]"

text \<open>
  The coefficients are placeholders and \<open>filterSignal\<close> does not read them: it returns
  the moving average over five samples.
\<close>

record coefficients =
  numerator :: "jsnum list"
  denominator :: "jsnum list"

definition createButterworthCoefficients :: "jsnum \<Rightarrow> jsnum \<Rightarrow> jsnum \<Rightarrow> coefficients" where
  "createButterworthCoefficients order lowW highW =
     \<lparr>numerator = [Num 1], denominator = [Num 1]\<rparr>"

definition filterSignal :: "jsnum list \<Rightarrow> jsnum list \<Rightarrow> jsnum list \<Rightarrow> jsnum list" where
  "filterSignal signal num den = movingAverage signal 5"

record filter_options =
  lowFreq :: jsnum
  highFreq :: jsnum
  samplingRate :: jsnum
  order :: jsnum

definition butterworth :: "jsnum list \<Rightarrow> filter_options \<Rightarrow> jsnum list" where
  "butterworth signal options =
     (let nyquist = js_div (samplingRate options) (Num 2);
          lowW = js_div (lowFreq options) nyquist;
          highW = js_div (highFreq options) nyquist;
          c = createButterworthCoefficients (order options) lowW highW
      in filterSignal signal (numerator c) (denominator c))"

text \<open>
  \<open>findPeaksTroughs\<close>: the loop runs \<open>i\<close> from 1 while \<open>i < signal.length - 1\<close>; a
  comparison with \<open>NaN\<close> is false.
\<close>

record peaks_troughs =
  pt_peaks :: "nat list"
  pt_troughs :: "nat list"

definition findPeaksTroughs :: "jsnum list \<Rightarrow> peaks_troughs" where
  "findPeaksTroughs signal =
     \<lparr>pt_peaks = filter (\<lambda>i. js_gt (signal ! i) (signal ! (i - 1))
                            \<and> js_gt (signal ! i) (signal ! (i + 1)))
                        [1 ..< length signal - 1],
      pt_troughs = filter (\<lambda>i. js_lt (signal ! i) (signal ! (i - 1))
                              \<and> js_lt (signal ! i) (signal ! (i + 1)))
                          [1 ..< length signal - 1]\<rparr>"

record components =
  ac_c :: jsnum
  dc_c :: jsnum
  perfusion_c :: jsnum
  peaks_c :: "nat list"
  troughs_c :: "nat list"
  signal_c :: "jsnum list"

definition calculateACDCComponents :: "jsnum list \<Rightarrow> components" where
  "calculateACDCComponents signal =
     (let windowSize = 30;
          dc = movingAverage signal windowSize;
          ac = map (\<lambda>i. js_sub (signal ! i) (dc ! i)) [0 ..< length signal];
          pt = findPeaksTroughs ac;
          peakValues = map (\<lambda>i. ac ! i) (pt_peaks pt);
          troughValues = map (\<lambda>i. ac ! i) (pt_troughs pt);
          acAmplitude = js_sub (Math_mean peakValues) (Math_mean troughValues);
          dcValue = Math_mean dc
      in \<lparr>ac_c = acAmplitude, dc_c = dcValue,
          perfusion_c = js_mul (js_div acAmplitude dcValue) (Num 100),
          peaks_c = pt_peaks pt, troughs_c = pt_troughs pt, signal_c = ac\<rparr>)"

definition calculateRatioAmplitude :: "components \<Rightarrow> components \<Rightarrow> jsnum" where
  "calculateRatioAmplitude redComponents irComponents =
     (let redRatio = js_div (ac_c redComponents) (dc_c redComponents);
          irRatio = js_div (ac_c irComponents) (dc_c irComponents)
      in js_div redRatio irRatio)"

definition calculateAreaUnderCurve :: "jsnum list \<Rightarrow> jsnum" where
  "calculateAreaUnderCurve signal = foldl (\<lambda>acc value. js_add acc (Math_abs value)) (Num 0) signal"

definition calculateRatioArea :: "jsnum list \<Rightarrow> jsnum list \<Rightarrow> jsnum" where
  "calculateRatioArea redSignal irSignal =
     (let redArea = calculateAreaUnderCurve redSignal;
          irArea = calculateAreaUnderCurve irSignal
      in js_div redArea irArea)"

definition calculateCalibatedSpO2 :: "jsnum \<Rightarrow> jsnum" where
  "calculateCalibatedSpO2 R =
     (let a = Num 110; b = Num 25;
          spO2 = js_sub a (js_mul b R)
      in Math_min (Num 100) (Math_max (Num 70) spO2))"

definition calculatePerfusionIndex :: "components \<Rightarrow> jsnum" where
  "calculatePerfusionIndex components = js_mul (js_div (ac_c components) (dc_c components)) (Num 100)"

definition calculateSNR :: "jsnum list \<Rightarrow> jsnum" where
  "calculateSNR signal =
     (let mean = Math_mean signal; noise = Math_std signal in js_div mean noise)"

definition calculateSignalStability :: "jsnum list \<Rightarrow> jsnum list \<Rightarrow> jsnum" where
  "calculateSignalStability redSignal irSignal =
     (let redStability = js_div (Num 1) (Math_std redSignal);
          irStability = js_div (Num 1) (Math_std irSignal)
      in js_div (js_add redStability irStability) (Num 2))"

definition isPhysiologicallyValid :: "jsnum \<Rightarrow> jsnum" where
  "isPhysiologicallyValid R = (if js_ge R (Num (1 / 2)) \<and> js_le R (Num 2) then Num 1 else Num 0)"

definition determineConfidenceLevel :: "jsnum \<Rightarrow> string" where
  "determineConfidenceLevel score =
     (if js_gt score (Num (8 / 10)) then ''high''
      else if js_gt score (Num (6 / 10)) then ''moderate''
      else ''low'')"

record metrics =
  snr_m :: jsnum
  stability_m :: jsnum
  physiological_m :: jsnum

text \<open>\<open>Object.values(metrics)\<close> lists the three fields in the order they were written.\<close>

definition calculateReliability :: "metrics \<Rightarrow> jsnum" where
  "calculateReliability m =
     js_div (foldl js_add (Num 0) [snr_m m, stability_m m, physiological_m m]) (Num 3)"

record quality_assessment =
  score_qa :: jsnum
  confidence_qa :: string
  reliability_qa :: jsnum
  metrics_qa :: metrics

definition assessSignalQuality :: "jsnum list \<Rightarrow> jsnum list \<Rightarrow> jsnum \<Rightarrow> quality_assessment" where
  "assessSignalQuality redSignal irSignal R =
     (let m = \<lparr>snr_m = js_add (js_mul (calculateSNR redSignal) (Num (3 / 10)))
                            (js_mul (calculateSNR irSignal) (Num (7 / 10))),
               stability_m = calculateSignalStability redSignal irSignal,
               physiological_m = isPhysiologicallyValid R\<rparr>;
          score = js_add (js_add (js_mul (snr_m m) (Num (4 / 10)))
                                 (js_mul (stability_m m) (Num (4 / 10))))
                         (js_mul (physiological_m m) (Num (2 / 10)))
      in \<lparr>score_qa = score, confidence_qa = determineConfidenceLevel score,
          reliability_qa = calculateReliability m, metrics_qa = m\<rparr>)"

text \<open>
  The result of \<open>calculateSpO2\<close>. \<open>value\<close> is a number or \<open>null\<close> (\<open>None\<close>); the
  fields after \<open>methodology\<close> are present in one of the two results only. \<open>details\<close>
  holds the numbers that the program prints with \<open>toFixed\<close>, before printing.
\<close>

record details =
  rValue :: jsnum
  redPerfusion :: jsnum
  irPerfusion :: jsnum
  signalQuality_d :: jsnum
  reliability_d :: jsnum

record spO2_metric =
  value_ox :: "jsnum option"
  unit_ox :: string
  confidence_ox :: string
  methodology_ox :: string
  perfusionIndex :: "jsnum option"
  quality :: "quality_assessment option"
  details_ox :: "details option"
  error_ox :: "js_exception option"

text \<open>
  The \<open>try\<close> block. It raises in \<open>preprocessSignals\<close> or not at all: on number
  triples arithmetic, \<open>map\<close>, \<open>reduce\<close>, indexing and \<open>toFixed\<close> with 2 or 3 digits
  all return. \<open>spO2_of\<close> is the block from its second step on, and \<open>error\<close> in the
  result stands for \<open>error.message\<close>, the engine's text for the exception.
\<close>

definition spO2_of :: "preprocessed \<Rightarrow> spO2_metric" where
  "spO2_of p =
     (let options = \<lparr>lowFreq = Num (1 / 2), highFreq = Num 4, samplingRate = Num 30, order = Num 4\<rparr>;
          filteredRed = butterworth (redSignal_out p) options;
          filteredIR = butterworth (infraredSignal_out p) options;
          redComponents = calculateACDCComponents filteredRed;
          irComponents = calculateACDCComponents filteredIR;
          ratioAmplitude = calculateRatioAmplitude redComponents irComponents;
          ratioArea = calculateRatioArea filteredRed filteredIR;
          R = js_add (js_mul ratioAmplitude (Num (6 / 10))) (js_mul ratioArea (Num (4 / 10)));
          spO2 = calculateCalibatedSpO2 R;
          q = assessSignalQuality (redSignal_out p) (infraredSignal_out p) R;
          pIndex = calculatePerfusionIndex redComponents
      in \<lparr>value_ox = Some (js_div (Math_round (js_mul spO2 (Num 10))) (Num 10)),
          unit_ox = ''%'',
          confidence_ox = confidence_qa q,
          methodology_ox = ''Advanced rPPG with dual ratio calculation'',
          perfusionIndex = Some pIndex,
          quality = Some q,
          details_ox = Some \<lparr>rValue = R, redPerfusion = perfusion_c redComponents,
                             irPerfusion = perfusion_c irComponents,
                             signalQuality_d = score_qa q, reliability_d = reliability_qa q\<rparr>,
          error_ox = None\<rparr>)"

definition calculateSpO2_try :: "rppg_arg \<Rightarrow> js_exception + spO2_metric" where
  "calculateSpO2_try rppgSignal =
     (case rppgSignal of
        Not_an_array \<Rightarrow> Inl TypeError
      | Frames frames \<Rightarrow>
          (case preprocessSignals frames of
             Inl error \<Rightarrow> Inl error
           | Inr p \<Rightarrow> Inr (spO2_of p)))"

definition calculateSpO2 :: "rppg_arg \<Rightarrow> spO2_metric" where
  "calculateSpO2 rppgSignal =
     (case calculateSpO2_try rppgSignal of
        Inr result \<Rightarrow> result
      | Inl error \<Rightarrow>
          \<lparr>value_ox = None, unit_ox = ''%'', confidence_ox = ''low'',
           methodology_ox = ''Advanced rPPG processing failed'',
           perfusionIndex = None, quality = None, details_ox = None,
           error_ox = Some error\<rparr>)"

section \<open>Vital signs processor\<close>

record vital_metric =
  value_vm :: jsnum
  unit_vm :: string
  confidence_vm :: string
  methodology_vm :: string

definition detectPeaks :: "jsnum list \<Rightarrow> nat list" where
  "detectPeaks signal =
     filter (\<lambda>i. js_gt (signal ! i) (signal ! (i - 1)) \<and> js_gt (signal ! i) (signal ! (i + 1)))
            [1 ..< length signal - 1]"

text \<open>\<open>calculateConfidence\<close> does not read its second argument, the metric's name.\<close>

definition calculateConfidence :: "jsnum list \<Rightarrow> string \<Rightarrow> string" where
  "calculateConfidence data metric =
     (let mean = Math_mean data;
          std = Math_std data;
          snr = js_div mean std
      in if js_gt snr (Num 2) then ''high''
         else if js_gt snr (Num 1) then ''moderate''
         else ''low'')"

definition calculateHeartRate :: "rgb list \<Rightarrow> vital_metric" where
  "calculateHeartRate rppgSignal =
     (let greenChannel = map rgb1 rppgSignal;
          peaks = detectPeaks greenChannel;
          duration = js_div (Num (real (length rppgSignal))) (Num 5);
          heartRate = js_div (js_mul (Num (real (length peaks))) (Num 60)) duration
      in \<lparr>value_vm = Math_round heartRate, unit_vm = ''bpm'',
          confidence_vm = calculateConfidence (map (\<lambda>i. Num (real i)) peaks) ''hr'',
          methodology_vm = ''rPPG color changes in face''\<rparr>)"

text \<open>
  \<open>calculateRMSSD\<close>: \<open>intervals.slice(1).map((interval, i) => ...)\<close> pairs element
  \<open>i + 1\<close> with element \<open>i\<close>; the division binds tighter than \<open>||\<close>, so that a mean of
  squared differences that is \<open>0\<close> or \<open>NaN\<close> is replaced by \<open>1\<close>.
\<close>

definition calculateRMSSD :: "jsnum list \<Rightarrow> jsnum" where
  "calculateRMSSD intervals =
     (if length intervals = 0 then Num 0
      else let differences =
                 map (\<lambda>i. Math_pow2 (js_sub (intervals ! (i + 1)) (intervals ! i)))
                     [0 ..< length intervals - 1]
           in Math_sqrt (js_or (js_div (foldl js_add (Num 0) differences)
                                       (Num (real (length differences))))
                               (Num 1)))"

definition rrIntervals_from :: "nat list \<Rightarrow> jsnum list" where
  "rrIntervals_from peaks =
     map (\<lambda>i. js_mul (js_div (js_sub (Num (real (peaks ! (i + 1)))) (Num (real (peaks ! i))))
                             (Num 5))
                     (Num 1000))
         [0 ..< length peaks - 1]"

definition calculateHRV :: "rgb list \<Rightarrow> vital_metric" where
  "calculateHRV rppgSignal =
     (let greenChannel = map rgb1 rppgSignal;
          peaks = detectPeaks greenChannel;
          rrIntervals = rrIntervals_from peaks;
          rmssd = calculateRMSSD rrIntervals
      in \<lparr>value_vm = Math_round rmssd, unit_vm = ''ms'',
          confidence_vm = calculateConfidence rrIntervals ''hrv'',
          methodology_vm = ''rPPG signal interval analysis''\<rparr>)"

definition getStressLevel :: "jsnum \<Rightarrow> string" where
  "getStressLevel score =
     (if js_ge score (Num 80) then ''very high''
      else if js_ge score (Num 60) then ''high''
      else if js_ge score (Num 40) then ''moderate''
      else if js_ge score (Num 20) then ''low''
      else ''very low'')"

record stress_metric =
  value_st :: jsnum
  level :: string
  confidence_st :: string
  methodology_st :: string

text \<open>
  \<open>calculateStressLevel\<close> sets its two variables \<open>hrvScore\<close> and
  \<open>respiratoryScore\<close> by two chains of comparisons, written here as two functions.
\<close>

definition hrvScore :: "jsnum \<Rightarrow> jsnum" where
  "hrvScore hrvValue =
     (if js_lt hrvValue (Num 20) then Num 100
      else if js_lt hrvValue (Num 30) then Num 80
      else if js_lt hrvValue (Num 50) then Num 60
      else if js_lt hrvValue (Num 100) then Num 40
      else Num 20)"

definition respiratoryScore :: "jsnum \<Rightarrow> jsnum" where
  "respiratoryScore respiratoryRate =
     (if js_gt respiratoryRate (Num 20) then Num 100
      else if js_gt respiratoryRate (Num 18) then Num 80
      else if js_gt respiratoryRate (Num 15) then Num 60
      else if js_gt respiratoryRate (Num 12) then Num 40
      else Num 20)"

definition calculateStressLevel :: "jsnum \<Rightarrow> jsnum \<Rightarrow> stress_metric" where
  "calculateStressLevel hrvValue respiratoryRate =
     (let finalScore = Math_round (js_add (js_mul (hrvScore hrvValue) (Num (7 / 10)))
                                          (js_mul (respiratoryScore respiratoryRate) (Num (3 / 10))))
      in \<lparr>value_st = finalScore, level = getStressLevel finalScore,
          confidence_st =
            (if js_lt hrvValue (Num 10) \<or> js_lt respiratoryRate (Num 8)
                \<or> js_gt respiratoryRate (Num 25)
             then ''low'' else ''moderate''),
          methodology_st = ''Combined HRV and respiratory analysis''\<rparr>)"

record signal_quality =
  signalToNoise :: jsnum
  quality_sq :: string
  confidence_sq :: string

definition calculateSignalQuality :: "rgb list \<Rightarrow> signal_quality" where
  "calculateSignalQuality rppgSignal =
     (let greenChannel = map rgb1 rppgSignal;
          mean = Math_mean greenChannel;
          std = Math_std greenChannel
      in \<lparr>signalToNoise = js_div mean std,
          quality_sq = (if js_gt (js_div mean std) (Num (3 / 2)) then ''good'' else ''poor''),
          confidence_sq = (if js_gt (js_div mean std) (Num 2) then ''high'' else ''moderate'')\<rparr>)"

section \<open>Report generator\<close>

record bp_metric =
  systolic :: jsnum
  diastolic :: jsnum
  unit_bp :: string
  confidence_bp :: string
  methodology_bp :: string

record mood_metric =
  primary :: string
  confidence_mood :: string
  methodology_mood :: string

record vitals =
  heartRate :: vital_metric
  hrv :: vital_metric
  respiratoryRate :: vital_metric
  bloodPressure :: bp_metric
  stressLevel :: stress_metric
  mood :: mood_metric
  spO2 :: spO2_metric
  signalQuality :: signal_quality

text \<open>
  A line of the summary is a string, or a template literal around the SpO2 value:
  \<open>Template a x b\<close> is the text \<open>a\<close>, the number \<open>x\<close> as JavaScript prints it,
  and the text \<open>b\<close>.
\<close>

datatype message = Plain string | Template string jsnum string

record health_summary =
  concerns_hs :: "message list"
  positives_hs :: "message list"
  overallStatus :: string

text \<open>
  \<open>generateHealthSummary\<close> pushes onto the two lists in the order of its four checks.
\<close>

definition generateHealthSummary :: "vitals \<Rightarrow> health_summary" where
  "generateHealthSummary v =
     (let hr = value_vm (heartRate v);
          c1 = (if js_lt hr (Num 60) \<or> js_gt hr (Num 100)
                then [Plain ''Heart rate outside normal range''] else []);
          p1 = (if js_lt hr (Num 60) \<or> js_gt hr (Num 100)
                then [] else [Plain ''Heart rate within normal range'']);
          c2 = (if js_lt (value_vm (hrv v)) (Num 20)
                then [Plain ''Lower than optimal heart rate variability''] else []);
          p2 = (if js_lt (value_vm (hrv v)) (Num 20)
                then [] else [Plain ''Good heart rate variability'']);
          c3 = (if js_gt (value_st (stressLevel v)) (Num 70)
                then [Plain ''Elevated stress levels detected''] else []);
          c4 = (case value_ox (spO2 v) of
                  None \<Rightarrow> []
                | Some x \<Rightarrow>
                    if js_ge x (Num 95) then []
                    else if js_ge x (Num 90)
                    then [Template ''Mild reduction in oxygen saturation ('' x ''%)'']
                    else [Template ''Low oxygen saturation ('' x
                            ''%) - immediate attention recommended'']);
          p4 = (case value_ox (spO2 v) of
                  None \<Rightarrow> []
                | Some x \<Rightarrow>
                    if js_ge x (Num 95) then [Plain ''Normal oxygen saturation levels''] else []);
          concerns = c1 @ c2 @ c3 @ c4;
          positives = p1 @ p2 @ p4
      in \<lparr>concerns_hs = concerns, positives_hs = positives,
          overallStatus = (if length concerns = 0 then ''Healthy'' else ''Needs Attention'')\<rparr>)"

record concern =
  concern_type :: string
  severity :: string
  recommendation :: string

definition identifyHealthConcerns :: "vitals \<Rightarrow> concern list" where
  "identifyHealthConcerns v =
     (if js_gt (value_vm (heartRate v)) (Num 100)
      then [\<lparr>concern_type = ''Elevated Heart Rate'', severity = ''Moderate'',
             recommendation = ''Consider relaxation techniques and consult healthcare provider if persistent''\<rparr>]
      else [])
     @ (if js_gt (value_st (stressLevel v)) (Num 70)
        then [\<lparr>concern_type = ''High Stress'', severity = ''Moderate'',
               recommendation = ''Practice stress management techniques and ensure adequate rest''\<rparr>]
        else [])
     @ (case value_ox (spO2 v) of
          None \<Rightarrow> []
        | Some x \<Rightarrow>
            if js_lt x (Num 95)
            then [\<lparr>concern_type = ''Reduced Oxygen Saturation'',
                   severity = (if js_lt x (Num 90) then ''High'' else ''Moderate''),
                   recommendation =
                     (if js_lt x (Num 90)
                      then ''Seek immediate medical attention if this persists''
                      else ''Monitor oxygen levels and consult healthcare provider if persistent'')\<rparr>]
            else [])"

text \<open>
  \<open>confidenceScores[m.confidence] || 0.5\<close>: a label that is not a key of the table
  reads \<open>undefined\<close>, which is falsy. The weights are the binary64 values of the
  literals \<open>1\<close>, \<open>0.6\<close> and \<open>0.3\<close>.
\<close>

definition confidenceScores :: "string \<rightharpoonup> jsnum" where
  "confidenceScores =
     [''high'' \<mapsto> fl 1, ''moderate'' \<mapsto> fl (6 / 10), ''low'' \<mapsto> fl (3 / 10)]"

definition confidenceScore_or_half :: "string \<Rightarrow> jsnum" where
  "confidenceScore_or_half c =
     (case confidenceScores c of None \<Rightarrow> fl (5 / 10) | Some w \<Rightarrow> js_or w (fl (5 / 10)))"

text \<open>
  \<open>assessConfidenceFactors\<close> reads \<open>vitals.signalQuality.variability\<close>, a field that
  \<open>calculateSignalQuality\<close> does not write: \<open>undefined < 0.3\<close> is false.
\<close>

record factors =
  signalStrength :: string
  measurementStability :: string
  dataCompleteness :: string

definition assessConfidenceFactors :: "vitals \<Rightarrow> factors" where
  "assessConfidenceFactors v =
     \<lparr>signalStrength =
        (if js_gt (signalToNoise (signalQuality v)) (Num (3 / 2)) then ''good'' else ''poor''),
      measurementStability = ''unstable'',
      dataCompleteness =
        (if quality_sq (signalQuality v) = ''good'' then ''complete'' else ''partial'')\<rparr>"

record overall_confidence =
  score_oc :: jsnum
  level_oc :: string
  factors_oc :: factors

text \<open>
  Of the six measurements \<open>calculateOverallConfidence\<close> reads the confidence label
  only; \<open>measurements\<close> lists the six labels in the order of the source's array.
  \<open>reduce\<close> adds the weights from the left, rounding each sum, and the quotient by the
  length is rounded; the thresholds are the binary64 values of \<open>0.8\<close> and \<open>0.5\<close>.
\<close>

definition measurements :: "vitals \<Rightarrow> string list" where
  "measurements v =
     [confidence_vm (heartRate v), confidence_vm (hrv v), confidence_vm (respiratoryRate v),
      confidence_bp (bloodPressure v), confidence_st (stressLevel v), confidence_ox (spO2 v)]"

definition calculateOverallConfidence :: "vitals \<Rightarrow> overall_confidence" where
  "calculateOverallConfidence v =
     (let avgConfidence =
            fl_div (foldl fl_add (Num 0) (map confidenceScore_or_half (measurements v)))
                   (Num (real (length (measurements v))))
      in \<lparr>score_oc = avgConfidence,
          level_oc = (if js_gt avgConfidence (fl (8 / 10)) then ''high''
                      else if js_gt avgConfidence (fl (5 / 10)) then ''moderate''
                      else ''low''),
          factors_oc = assessConfidenceFactors v\<rparr>)"

section \<open>Reference definitions\<close>

text \<open>
  The trailing moving average in words: output \<open>i\<close> is the arithmetic mean of the
  window that ends at sample \<open>i\<close> and holds the last \<open>w\<close> samples, or all the
  samples so far when there are fewer.
\<close>

definition window_mean :: "jsnum list \<Rightarrow> jsnum" where
  "window_mean xs = js_div (foldl js_add (Num 0) xs) (Num (real (length xs)))"

definition trailing_average :: "jsnum list \<Rightarrow> nat \<Rightarrow> jsnum list" where
  "trailing_average signal w =
     map (\<lambda>i. window_mean (drop (Suc i - w) (take (Suc i) signal))) [0 ..< length signal]"

text \<open>\<open>isFinite\<close>, and the real that a finite number denotes.\<close>

fun is_finite :: "jsnum \<Rightarrow> bool" where
  "is_finite (Num a) = True"
| "is_finite _ = False"

fun real_of :: "jsnum \<Rightarrow> real" where
  "real_of (Num a) = a"
| "real_of _ = 0"

text \<open>
  The weight of a confidence label as the decimal number of the source text and as the
  binary64 value of that literal, the exact average of six weights, and the bucket of
  an exact average.
\<close>

definition label_weight :: "string \<Rightarrow> real" where
  "label_weight c = (if c = ''high'' then 1 else if c = ''moderate'' then 6 / 10 else 3 / 10)"

definition label_double :: "string \<Rightarrow> jsnum" where
  "label_double c =
     (if c = ''high'' then Num 1 else if c = ''moderate'' then fl (6 / 10) else fl (3 / 10))"

definition exact_average :: "string list \<Rightarrow> real" where
  "exact_average cs = sum_list (map label_weight cs) / 6"

definition bucket :: "real \<Rightarrow> string" where
  "bucket a = (if 8 / 10 < a then ''high'' else if 5 / 10 < a then ''moderate'' else ''low'')"

text \<open>
  A bundle with every metric present: heart rate 72, HRV 45, SpO2 97, stress score 54.
\<close>

definition sample_vitals :: vitals where
  "sample_vitals =
     \<lparr>heartRate = \<lparr>value_vm = Num 72, unit_vm = ''bpm'', confidence_vm = ''high'',
                    methodology_vm = ''rPPG color changes in face''\<rparr>,
      hrv = \<lparr>value_vm = Num 45, unit_vm = ''ms'', confidence_vm = ''moderate'',
              methodology_vm = ''rPPG signal interval analysis''\<rparr>,
      respiratoryRate = \<lparr>value_vm = Num 14, unit_vm = ''breaths/min'', confidence_vm = ''moderate'',
                          methodology_vm = ''Subtle head/chest movements''\<rparr>,
      bloodPressure = \<lparr>systolic = Num 118, diastolic = Num 76, unit_bp = ''mmHg'',
                        confidence_bp = ''low'',
                        methodology_bp = ''Experimental ML model with rPPG''\<rparr>,
      stressLevel = calculateStressLevel (Num 45) (Num 14),
      mood = \<lparr>primary = ''neutral'', confidence_mood = ''moderate'',
               methodology_mood = ''Movement pattern analysis''\<rparr>,
      spO2 = \<lparr>value_ox = Some (Num 97), unit_ox = ''%'', confidence_ox = ''high'',
               methodology_ox = ''Advanced rPPG with dual ratio calculation'',
               perfusionIndex = Some (Num 2),
               quality = Some \<lparr>score_qa = Num 1, confidence_qa = ''high'', reliability_qa = Num 1,
                               metrics_qa = \<lparr>snr_m = Num 1, stability_m = Num 1,
                                              physiological_m = Num 1\<rparr>\<rparr>,
               details_ox = Some \<lparr>rValue = Num (52 / 100), redPerfusion = Num 2,
                                  irPerfusion = Num (5 / 2), signalQuality_d = Num 1,
                                  reliability_d = Num 1\<rparr>,
               error_ox = None\<rparr>,
      signalQuality = \<lparr>signalToNoise = Num 3, quality_sq = ''good'', confidence_sq = ''high''\<rparr>\<rparr>"

text \<open>
  The same bundle for a perfectly regular pulse: \<open>calculateRMSSD\<close> then returns 1,
  so the HRV value is 1, and the stress score is computed from it.
\<close>

definition regular_pulse_vitals :: vitals where
  "regular_pulse_vitals =
     sample_vitals
       \<lparr>hrv := \<lparr>value_vm = Num 1, unit_vm = ''ms'', confidence_vm = ''low'',
                 methodology_vm = ''rPPG signal interval analysis''\<rparr>,
        stressLevel := calculateStressLevel (Num 1) (Num 14)\<rparr>"

text \<open>
  Two bundles with three labels \<open>high\<close> and three labels \<open>moderate\<close>: in the order of
  the six measurements the labels are high, high, moderate, moderate, moderate, high in
  the first and high, high, high, moderate, moderate, moderate in the second.
\<close>

definition tie_vitals :: vitals where
  "tie_vitals =
     sample_vitals
       \<lparr>hrv := (hrv sample_vitals)\<lparr>confidence_vm := ''high''\<rparr>,
        bloodPressure := (bloodPressure sample_vitals)\<lparr>confidence_bp := ''moderate''\<rparr>\<rparr>"

definition tie_vitals_sorted :: vitals where
  "tie_vitals_sorted =
     tie_vitals
       \<lparr>respiratoryRate := (respiratoryRate sample_vitals)\<lparr>confidence_vm := ''high''\<rparr>,
        spO2 := (spO2 sample_vitals)\<lparr>confidence_ox := ''moderate''\<rparr>\<rparr>"

text \<open>The constant series of 50 frames whose three channel means are 100.\<close>

definition constant_frames :: "rgb list" where
  "constant_frames = replicate 50 (Num 100, Num 100, Num 100)"

section \<open>Arithmetic on JavaScript numbers\<close>

lemma js_add_0 [simp]: "js_add (Num 0) x = x" "js_add x (Num 0) = x"
  by (cases x; simp)+

lemma js_add_NaN [simp]: "js_add x NaN = NaN"
  by (cases x) simp_all

lemma js_lt_NaN [simp]: "js_lt x NaN = False"
  by (cases x) simp_all

lemma js_div_NaN [simp]: "js_div x NaN = NaN"
  by (cases x) simp_all

lemma js_mul_NaN [simp]: "js_mul x NaN = NaN"
  by (cases x) simp_all

lemma foldl_add_Num: "foldl js_add (Num a) (map Num rs) = Num (a + sum_list rs)"
  by (induction rs arbitrary: a) simp_all

lemma foldl_add_zeros: "foldl js_add (Num 0) (replicate n (Num 0)) = Num 0"
  by (induction n) simp_all

lemma finite_list: "list_all is_finite xs \<Longrightarrow> xs = map Num (map real_of xs)"
proof (induction xs)
  case Nil
  then show ?case by simp
next
  case (Cons x xs)
  then show ?case by (cases x) simp_all
qed

section \<open>Rounding\<close>

lemma pow2_powr: "pow2 e = 2 powr (of_int e)"
proof (cases "0 \<le> e")
  case True
  then have "2 powr (of_int e) = (2::real) powr (real (nat e))" by simp
  also have "\<dots> = 2 ^ nat e" by (simp add: powr_realpow)
  finally show ?thesis using True by (simp add: pow2_def)
next
  case False
  then have "(2::real) powr (of_int e) = 2 powr (- real (nat (- e)))" by simp
  also have "\<dots> = 1 / 2 ^ nat (- e)" by (simp add: powr_minus powr_realpow divide_inverse)
  finally show ?thesis using False by (simp add: pow2_def)
qed

lemma pow2_pos [simp]: "0 < pow2 e"
  by (simp add: pow2_powr)

lemma pow2_not_le_0 [simp]: "\<not> pow2 e \<le> 0"
  using pow2_pos [of e] by (simp only: not_le)

lemma pow2_nonneg [simp]: "0 \<le> pow2 e"
  using pow2_pos [of e] by (rule less_imp_le)

lemma pow2_neq_0 [simp]: "pow2 e \<noteq> 0"
  by (metis pow2_pos less_irrefl)

lemma pow2_not_less_0 [simp]: "\<not> pow2 e < 0"
  by (metis pow2_nonneg not_less)

lemma pow2_add: "pow2 (a + b) = pow2 a * pow2 b"
  by (simp add: pow2_powr powr_add)

lemma pow2_split: "pow2 (e + 1) = pow2 53 * pow2 (e - 52)"
proof -
  have "e + 1 = 53 + (e - 52)" by simp
  then show ?thesis by (simp only: pow2_add)
qed

lemma pow2_mono: "a \<le> b \<Longrightarrow> pow2 a \<le> pow2 b"
  by (simp add: pow2_powr)

lemma floor_log2:
  assumes "0 < x" "pow2 e \<le> x" "x < pow2 (e + 1)"
  shows "\<lfloor>log 2 x\<rfloor> = e"
proof (rule floor_unique)
  show "of_int e \<le> log 2 x"
    using assms by (simp add: le_log_iff pow2_powr)
  show "log 2 x < of_int e + 1"
    using assms by (simp add: log_less_iff pow2_powr)
qed

lemma rne_int [simp]: "rne (of_int n) = n"
  by (simp add: rne_def)

lemma rne_0 [simp]: "rne 0 = 0"
  by (simp add: rne_def)

lemma rne_bounds: "real_of_int (rne z) \<le> z + 1 / 2 \<and> z - 1 / 2 \<le> real_of_int (rne z)"
  unfolding rne_def Let_def by (auto; linarith)

lemma rne_le:
  assumes "z \<le> of_int m"
  shows "rne z \<le> m"
proof (cases "z = of_int m")
  case True
  then show ?thesis by simp
next
  case False
  with assms have "z < of_int m" by simp
  then have "\<lfloor>z\<rfloor> < m" by (simp add: floor_less_iff)
  moreover have "rne z \<le> \<lfloor>z\<rfloor> + 1" by (simp add: rne_def Let_def)
  ultimately show ?thesis by linarith
qed

text \<open>
  The value of \<open>fl\<close> on a positive number of a known normal binade \<open>e\<close>; it evaluates
  \<open>fl\<close> on a given rational.
\<close>

lemma fl_normal:
  assumes "0 < x" "pow2 e \<le> x" "x < pow2 (e + 1)" "- 1022 \<le> e" "e < 1023"
  shows "fl x = Num (of_int (rne (x / pow2 (e - 52))) * pow2 (e - 52))"
proof -
  have b: "binade x = e"
    using assms floor_log2 [of x e] by (simp add: binade_def)
  have "x / pow2 (e - 52) < pow2 53"
    using assms(3) by (simp add: pow2_split pos_divide_less_eq)
  then have "x / pow2 (e - 52) \<le> of_int (2 ^ 53)" by (simp add: pow2_def)
  then have "rne (x / pow2 (e - 52)) \<le> 2 ^ 53" by (rule rne_le)
  then have "real_of_int (rne (x / pow2 (e - 52))) \<le> pow2 53"
    by (simp add: pow2_def)
  then have "of_int (rne (x / pow2 (e - 52))) * pow2 (e - 52) \<le> pow2 53 * pow2 (e - 52)"
    by (simp add: mult_right_mono)
  also have "\<dots> = pow2 (e + 1)" by (simp only: pow2_split)
  also have "\<dots> \<le> pow2 1023" using assms(5) by (intro pow2_mono) simp
  also have "\<dots> < pow2 1024" by (simp add: pow2_powr)
  finally have "\<not> pow2 1024 \<le> of_int (rne (x / pow2 (e - 52))) * pow2 (e - 52)" by simp
  then show ?thesis
    using assms(1) by (simp add: fl_def b Let_def)
qed

lemma fl_0 [simp]: "fl 0 = Num 0"
  by (simp add: fl_def Let_def)

lemma fl_minus: "fl (- x) = js_neg (fl x)"
proof (cases "x = 0")
  case True
  then show ?thesis by simp
next
  case False
  then show ?thesis by (auto simp: fl_def Let_def binade_def)
qed

text \<open>Integers below \<open>2^53\<close> in magnitude are binary64 values.\<close>

lemma divide_by_unit:
  fixes a b x :: real
  assumes "a * b = 1"
  shows "x / a = x * b"
  using assms by (metis divide_inverse inverse_unique)

lemma fl_pos_int:
  assumes "0 < k" "k < 2 ^ 53"
  shows "fl (of_int k) = Num (of_int k)"
proof -
  define e where "e = \<lfloor>log 2 (of_int k)\<rfloor>"
  have k1: "1 \<le> real_of_int k" using assms(1) by simp
  have "0 \<le> log 2 (of_int k)" using k1 by simp
  then have e0: "0 \<le> e" by (simp add: e_def)
  have "of_int e \<le> log 2 (of_int k)" by (simp add: e_def)
  then have lo: "pow2 e \<le> of_int k"
    using k1 by (simp add: le_log_iff pow2_powr)
  have "log 2 (of_int k) < of_int e + 1" by (simp add: e_def)
  then have hi: "of_int k < pow2 (e + 1)"
    using k1 by (simp add: log_less_iff pow2_powr)
  have e52: "e \<le> 52"
  proof (rule ccontr)
    assume "\<not> e \<le> 52"
    then have "pow2 53 \<le> pow2 e" by (intro pow2_mono) simp
    with lo have "pow2 53 \<le> of_int k" by simp
    moreover have "real_of_int k < 2 ^ 53"
      using of_int_less_iff [of k "2 ^ 53", where 'a = real] assms(2) by simp
    ultimately show False by (simp add: pow2_def)
  qed
  have "pow2 (e - 52) * pow2 (52 - e) = pow2 0"
    by (simp only: pow2_add [symmetric]) simp
  moreover have "pow2 (52 - e) = of_int (2 ^ nat (52 - e))"
    using e52 by (simp add: pow2_def)
  ultimately have inv: "pow2 (e - 52) * of_int (2 ^ nat (52 - e)) = 1"
    by (simp add: pow2_def)
  then have "of_int k / pow2 (e - 52) = of_int k * of_int (2 ^ nat (52 - e))"
    by (rule divide_by_unit)
  also have "\<dots> = of_int (k * 2 ^ nat (52 - e))" by simp
  finally have q: "of_int k / pow2 (e - 52) = of_int (k * 2 ^ nat (52 - e))" .
  have "fl (of_int k)
        = Num (of_int (rne (of_int k / pow2 (e - 52))) * pow2 (e - 52))"
    using k1 lo hi e0 e52 by (intro fl_normal) simp_all
  also have "\<dots> = Num (of_int (k * 2 ^ nat (52 - e)) * pow2 (e - 52))"
    by (simp only: q rne_int)
  also have "\<dots> = Num (of_int k * (pow2 (e - 52) * of_int (2 ^ nat (52 - e))))"
    by (simp add: mult.assoc mult.commute)
  also have "\<dots> = Num (of_int k)" by (simp only: inv mult_1_right)
  finally show ?thesis .
qed

lemma fl_int:
  assumes "\<bar>k\<bar> < 2 ^ 53"
  shows "fl (of_int k) = Num (of_int k)"
proof -
  consider "k = 0" | "0 < k" | "k < 0" by linarith
  then show ?thesis
  proof cases
    case 1
    then show ?thesis by simp
  next
    case 2
    with assms show ?thesis by (intro fl_pos_int) simp_all
  next
    case 3
    with assms have "fl (of_int (- k)) = Num (of_int (- k))" by (intro fl_pos_int) simp_all
    then have "fl (- of_int k) = Num (- of_int k)" by simp
    then show ?thesis by (simp add: fl_minus split: jsnum.splits) (cases "fl (of_int k)"; simp)
  qed
qed

lemma fl_numeral [simp]: "(numeral n :: int) < 2 ^ 53 \<Longrightarrow> fl (numeral n) = Num (numeral n)"
  using fl_int [of "numeral n"] by simp

lemma fl_neg_numeral [simp]:
  "(numeral n :: int) < 2 ^ 53 \<Longrightarrow> fl (- numeral n) = Num (- numeral n)"
  using fl_int [of "- numeral n"] by simp

lemma fl_1 [simp]: "fl 1 = Num 1"
  using fl_int [of 1] by simp

lemma fl_neg_1 [simp]: "fl (- 1) = Num (- 1)"
  using fl_int [of "- 1"] by simp

lemmas fl_ops = fl_add_def fl_sub_def fl_mul_def fl_div_def

lemma rnd_nonfinite: "\<not> is_finite x \<Longrightarrow> rnd x = x"
  by (cases x) simp_all

lemma fl_add_NaN [simp]: "fl_add NaN x = NaN" "fl_add x NaN = NaN"
  by (simp_all add: fl_add_def)

lemma fl_add_0_0 [simp]: "fl_add (Num 0) (Num 0) = Num 0"
  by (simp add: fl_add_def)

section \<open>Calibration\<close>

text \<open>
  C3. For every finite real \<open>R\<close> the calibration returns \<open>110 - 25 * R\<close> clamped to
  \<open>[70, 100]\<close>; so the output never increases when \<open>R\<close> grows, it always lies in
  \<open>[70, 100]\<close>, and \<open>R = 1\<close> gives 85, \<open>R = 0\<close> gives 100 and \<open>R = 2\<close> gives 70.
\<close>

lemma calibration_finite:
  "calculateCalibatedSpO2 (Num r) = Num (min 100 (max 70 (110 - 25 * r)))"
  by (simp add: calculateCalibatedSpO2_def Math_min_def Math_max_def js_sub_def Let_def)

theorem calibration_clamp:
  "calculateCalibatedSpO2 (Num r) = Num (min 100 (max 70 (110 - 25 * r)))
   \<and> (r1 \<le> r2 \<longrightarrow> js_le (calculateCalibatedSpO2 (Num r2)) (calculateCalibatedSpO2 (Num r1)))
   \<and> js_le (Num 70) (calculateCalibatedSpO2 (Num r))
   \<and> js_le (calculateCalibatedSpO2 (Num r)) (Num 100)
   \<and> calculateCalibatedSpO2 (Num 1) = Num 85
   \<and> calculateCalibatedSpO2 (Num 0) = Num 100
   \<and> calculateCalibatedSpO2 (Num 2) = Num 70"
  unfolding calibration_finite by auto

theorem calibration_clamp_witness:
  "(1 :: real) \<le> 3 / 2
   \<and> calculateCalibatedSpO2 (Num (3 / 2)) = Num (145 / 2)
   \<and> js_le (calculateCalibatedSpO2 (Num (3 / 2))) (calculateCalibatedSpO2 (Num 1))
   \<and> calculateCalibatedSpO2 (Num 1) = Num 85"
  using calibration_clamp [of "3 / 2" 1 "3 / 2"] by simp

section \<open>The band-limiting placeholder\<close>

lemma window_loop:
  "foldl (\<lambda>(acc, count) j. (js_add acc (signal ! j), Suc count)) (a, c) js
   = (foldl js_add a (map ((!) signal) js), c + length js)"
  by (induction js arbitrary: a c) simp_all

lemma map_nth_upt: "n \<le> length xs \<Longrightarrow> map ((!) xs) [m ..< n] = drop m (take n xs)"
  by (rule nth_equalityI) auto

lemma window_sum_eq:
  assumes "i < length signal"
  shows "window_sum signal w i
   = (foldl js_add (Num 0) (drop (Suc i - w) (take (Suc i) signal)),
      length (drop (Suc i - w) (take (Suc i) signal)))"
proof -
  have m: "map ((!) signal) [Suc i - w ..< Suc i] = drop (Suc i - w) (take (Suc i) signal)"
    using assms by (intro map_nth_upt) simp
  have "length (map ((!) signal) [Suc i - w ..< Suc i])
        = length (drop (Suc i - w) (take (Suc i) signal))"
    by (simp only: m)
  then have l: "length [Suc i - w ..< Suc i] = length (drop (Suc i - w) (take (Suc i) signal))"
    by (simp only: length_map)
  show ?thesis
    unfolding window_sum_def window_loop m l by simp
qed

lemma movingAverage_trailing: "movingAverage signal w = trailing_average signal w"
  by (simp add: movingAverage_def trailing_average_def window_mean_def window_sum_eq)

lemma butterworth_eq: "butterworth signal options = movingAverage signal 5"
  by (simp add: butterworth_def filterSignal_def Let_def)

text \<open>
  C5. Whatever the filter parameters, \<open>butterworth\<close> returns the same series, and that
  series is \<open>movingAverage(signal, 5)\<close>, the trailing moving average over five samples.
\<close>

theorem butterworth_is_moving_average:
  "butterworth signal options = butterworth signal options'
   \<and> butterworth signal options = movingAverage signal 5
   \<and> butterworth signal options = trailing_average signal 5"
  by (simp add: butterworth_eq movingAverage_trailing)

theorem butterworth_is_moving_average_witness:
  "butterworth [Num 1, Num 2, Num 3, Num 4, Num 5, Num 6, Num 7]
     \<lparr>lowFreq = Num (1 / 2), highFreq = Num 4, samplingRate = Num 30, order = Num 4\<rparr>
   = butterworth [Num 1, Num 2, Num 3, Num 4, Num 5, Num 6, Num 7]
     \<lparr>lowFreq = Num 1, highFreq = Num 2, samplingRate = Num 0, order = Num 8\<rparr>
   \<and> trailing_average [Num 1, Num 2, Num 3, Num 4, Num 5, Num 6, Num 7] 5
   = [Num 1, Num (3 / 2), Num 2, Num (5 / 2), Num 3, Num 4, Num 5]"
  using butterworth_is_moving_average
    [of "[Num 1, Num 2, Num 3, Num 4, Num 5, Num 6, Num 7]"
        "\<lparr>lowFreq = Num (1 / 2), highFreq = Num 4, samplingRate = Num 30, order = Num 4\<rparr>"
        "\<lparr>lowFreq = Num 1, highFreq = Num 2, samplingRate = Num 0, order = Num 8\<rparr>"]
  by (simp add: trailing_average_def window_mean_def upt_rec)

section \<open>Stress level\<close>

lemma hrvScore_cases: "hrvScore h \<in> {Num 100, Num 80, Num 60, Num 40, Num 20}"
  by (simp add: hrvScore_def)

lemma respiratoryScore_cases: "respiratoryScore r \<in> {Num 100, Num 80, Num 60, Num 40, Num 20}"
  by (simp add: respiratoryScore_def)

lemma stress_value_int:
  "\<exists>n. value_st (calculateStressLevel h r) = Num (of_int n) \<and> 20 \<le> n \<and> n \<le> 100"
  using hrvScore_cases [of h] respiratoryScore_cases [of r]
  by (auto simp: calculateStressLevel_def Let_def)

text \<open>
  C4, as the claim states it, fails: with HRV 10 and respiratory rate 25 both band scores
  are 100, the program returns \<open>round(100 * 0.7 + 100 * 0.3) = 100\<close>, and the claim's
  weights give \<open>round(100 * 0.7 + 100 * 0.4) = 110\<close>.
\<close>

theorem stress_weight_counterexample:
  "value_st (calculateStressLevel (Num 10) (Num 25)) = Num 100
   \<and> Math_round (js_add (js_mul (hrvScore (Num 10)) (Num (7 / 10)))
                         (js_mul (respiratoryScore (Num 25)) (Num (4 / 10)))) = Num 110
   \<and> value_st (calculateStressLevel (Num 10) (Num 25))
     \<noteq> Math_round (js_add (js_mul (hrvScore (Num 10)) (Num (7 / 10)))
                            (js_mul (respiratoryScore (Num 25)) (Num (4 / 10))))"
  by (simp add: calculateStressLevel_def hrvScore_def respiratoryScore_def js_gt_def Let_def)

text \<open>
  C4, amended. For every HRV value and respiratory rate the stress score is
  \<open>round(hrvScore * 0.7 + respiratoryScore * 0.3)\<close>, where each band score is one of
  100, 80, 60, 40, 20; the score is a whole number from 20 to 100, and its label is
  \<open>very high\<close> from 80, \<open>high\<close> from 60, \<open>moderate\<close> from 40, \<open>low\<close> from 20 and
  \<open>very low\<close> below.
\<close>

theorem stress_score_weights:
  "value_st (calculateStressLevel h r)
     = Math_round (js_add (js_mul (hrvScore h) (Num (7 / 10)))
                          (js_mul (respiratoryScore r) (Num (3 / 10))))
   \<and> hrvScore h \<in> {Num 100, Num 80, Num 60, Num 40, Num 20}
   \<and> respiratoryScore r \<in> {Num 100, Num 80, Num 60, Num 40, Num 20}
   \<and> (\<exists>n. value_st (calculateStressLevel h r) = Num (of_int n) \<and> 20 \<le> n \<and> n \<le> 100)
   \<and> level (calculateStressLevel h r) = getStressLevel (value_st (calculateStressLevel h r))
   \<and> getStressLevel (Num x)
     = (if 80 \<le> x then ''very high'' else if 60 \<le> x then ''high''
        else if 40 \<le> x then ''moderate'' else if 20 \<le> x then ''low'' else ''very low'')"
proof -
  have "value_st (calculateStressLevel h r)
     = Math_round (js_add (js_mul (hrvScore h) (Num (7 / 10)))
                          (js_mul (respiratoryScore r) (Num (3 / 10))))"
    by (simp add: calculateStressLevel_def Let_def)
  moreover have "level (calculateStressLevel h r)
     = getStressLevel (value_st (calculateStressLevel h r))"
    by (simp add: calculateStressLevel_def Let_def)
  moreover have "getStressLevel (Num x)
     = (if 80 \<le> x then ''very high'' else if 60 \<le> x then ''high''
        else if 40 \<le> x then ''moderate'' else if 20 \<le> x then ''low'' else ''very low'')"
    by (auto simp: getStressLevel_def js_ge_def)
  ultimately show ?thesis
    using hrvScore_cases [of h] respiratoryScore_cases [of r] stress_value_int [of h r]
    by blast
qed

theorem stress_score_weights_witness:
  "value_st (calculateStressLevel (Num 10) (Num 25)) = Num 100
   \<and> level (calculateStressLevel (Num 10) (Num 25)) = ''very high''
   \<and> hrvScore (Num 10) = Num 100 \<and> respiratoryScore (Num 25) = Num 100"
  using stress_score_weights [of "Num 10" "Num 25" 100]
  by (simp add: hrvScore_def respiratoryScore_def js_gt_def)

section \<open>RMSSD and HRV\<close>

lemma rmssd_finite:
  assumes "list_all is_finite intervals"
  shows "\<exists>r. calculateRMSSD intervals = Num r \<and> 0 \<le> r"
proof -
  define rs where "rs = map real_of intervals"
  have rs: "intervals = map Num rs" using assms finite_list rs_def by simp
  define ds where "ds = map (\<lambda>i. (rs ! (i + 1) - rs ! i)\<^sup>2) [0 ..< length rs - 1]"
  have diffs: "map (\<lambda>i. Math_pow2 (js_sub (intervals ! (i + 1)) (intervals ! i)))
                   [0 ..< length intervals - 1] = map Num ds"
    by (simp add: rs ds_def Math_pow2_def js_sub_def power2_eq_square)
  have nonneg: "0 \<le> sum_list ds"
    by (rule sum_list_nonneg) (auto simp: ds_def)
  show ?thesis
  proof (cases "length intervals = 0")
    case True
    then show ?thesis by (simp add: calculateRMSSD_def)
  next
    case False
    have "calculateRMSSD intervals
          = Math_sqrt (js_or (js_div (Num (sum_list ds)) (Num (real (length ds)))) (Num 1))"
      unfolding calculateRMSSD_def Let_def diffs foldl_add_Num using False by simp
    also have "\<exists>r. \<dots> = Num r \<and> 0 \<le> r"
    proof -
      have "0 \<le> sum_list ds / real (length ds)" using nonneg by simp
      then show ?thesis by (auto simp: js_or_def js_inf_def)
    qed
    finally show ?thesis .
  qed
qed

lemma rrIntervals_few: "length peaks < 2 \<Longrightarrow> rrIntervals_from peaks = []"
  by (simp add: rrIntervals_from_def)

lemma confidence_nil: "calculateConfidence [] metric = ''low''"
  by (simp add: calculateConfidence_def Math_mean_def Math_std_def length_or_1_def
      fl_ops js_gt_def js_inf_def Let_def)

lemma hrv_few_peaks:
  assumes "length (detectPeaks (map rgb1 rppgSignal)) < 2"
  shows "calculateHRV rppgSignal
    = \<lparr>value_vm = Num 0, unit_vm = ''ms'', confidence_vm = ''low'',
       methodology_vm = ''rPPG signal interval analysis''\<rparr>"
  using assms
  by (simp add: calculateHRV_def Let_def rrIntervals_few confidence_nil calculateRMSSD_def)

text \<open>
  C7. On a list of finite intervals \<open>calculateRMSSD\<close> returns a finite number that is
  not negative; on the empty list it returns 0; and when fewer than two peaks are
  detected the interval list is empty, so \<open>calculateHRV\<close> returns the value 0 with
  confidence \<open>low\<close> (the model is total: nothing is raised).
\<close>

theorem rmssd_nonneg:
  "(list_all is_finite intervals \<longrightarrow> (\<exists>r. calculateRMSSD intervals = Num r \<and> 0 \<le> r))
   \<and> calculateRMSSD [] = Num 0
   \<and> (length (detectPeaks (map rgb1 rppgSignal)) < 2 \<longrightarrow>
        calculateRMSSD (rrIntervals_from (detectPeaks (map rgb1 rppgSignal))) = Num 0
        \<and> value_vm (calculateHRV rppgSignal) = Num 0
        \<and> confidence_vm (calculateHRV rppgSignal) = ''low'')"
  using rmssd_finite [of intervals] hrv_few_peaks [of rppgSignal]
  by (simp add: rrIntervals_few calculateRMSSD_def)

lemma detectPeaks_one_peak: "detectPeaks (map rgb1 [(Num 1, Num 1, Num 1), (Num 1, Num 2, Num 1), (Num 1, Num 1, Num 1)]) = [1]"
  by (simp add: detectPeaks_def rgb1_def js_gt_def)

theorem rmssd_nonneg_witness:
  "list_all is_finite [Num 800, Num 1000]
   \<and> (\<exists>r. calculateRMSSD [Num 800, Num 1000] = Num r \<and> 0 \<le> r)
   \<and> calculateRMSSD [Num 800, Num 1000] = Num 200
   \<and> length (detectPeaks (map rgb1
        [(Num 1, Num 1, Num 1), (Num 1, Num 2, Num 1), (Num 1, Num 1, Num 1)])) < 2
   \<and> value_vm (calculateHRV
        [(Num 1, Num 1, Num 1), (Num 1, Num 2, Num 1), (Num 1, Num 1, Num 1)]) = Num 0
   \<and> confidence_vm (calculateHRV
        [(Num 1, Num 1, Num 1), (Num 1, Num 2, Num 1), (Num 1, Num 1, Num 1)]) = ''low''"
  using rmssd_nonneg [of "[Num 800, Num 1000]"
      "[(Num 1, Num 1, Num 1), (Num 1, Num 2, Num 1), (Num 1, Num 1, Num 1)]"]
  by (simp add: detectPeaks_def rgb1_def js_gt_def calculateRMSSD_def Math_pow2_def
      js_sub_def js_or_def)

text \<open>
  C8. On a non-empty interval list whose successive differences are all zero (a single
  interval, or a constant list) \<open>calculateRMSSD\<close> returns 1: the mean of the squared
  differences is \<open>0\<close>, or \<open>0 / 0 = NaN\<close> for a single interval, and \<open>|| 1\<close> replaces
  it by 1 before the square root.
\<close>

theorem rmssd_regular:
  assumes "intervals \<noteq> []"
    and "\<forall>i. Suc i < length intervals \<longrightarrow> js_sub (intervals ! Suc i) (intervals ! i) = Num 0"
  shows "calculateRMSSD intervals = Num 1"
proof -
  have "map (\<lambda>i. Math_pow2 (js_sub (intervals ! (i + 1)) (intervals ! i)))
            [0 ..< length intervals - 1] = replicate (length intervals - 1) (Num 0)"
    using assms(2) by (intro replicate_eqI) (auto simp: Math_pow2_def)
  then have "calculateRMSSD intervals
      = Math_sqrt (js_or (js_div (Num 0) (Num (real (length intervals - 1)))) (Num 1))"
    unfolding calculateRMSSD_def Let_def using assms(1)
    by (simp only: foldl_add_zeros length_replicate length_0_conv if_False)
  then show ?thesis
    by (simp add: js_or_def js_inf_def)
qed

theorem rmssd_regular_witness:
  "calculateRMSSD [Num 800, Num 800, Num 800] = Num 1 \<and> calculateRMSSD [Num 800] = Num 1
   \<and> calculateRMSSD (replicate 4 (Num 1000)) = Num 1"
  using rmssd_regular [of "[Num 800, Num 800, Num 800]"] rmssd_regular [of "[Num 800]"]
    rmssd_regular [of "replicate 4 (Num 1000)"]
  by (simp add: js_sub_def nth_Cons')

section \<open>Confidence buckets\<close>

lemma snr_13: "js_div (Math_mean [Num 1, Num 3]) (Math_std [Num 1, Num 3]) = Num 2"
  by (simp add: Math_mean_def Math_std_def length_or_1_def Math_pow2_def js_sub_def fl_ops
      Let_def)

text \<open>
  C6. \<open>calculateConfidence\<close> returns exactly one of the three labels for every series:
  \<open>high\<close> when \<open>snr = mean / std\<close> is above 2, \<open>moderate\<close> when it is above 1 and not
  above 2, \<open>low\<close> otherwise; \<open>snr = 2\<close> gives \<open>moderate\<close>, and the values that are not
  finite have a bucket too (\<open>NaN\<close> and \<open>-Infinity\<close> give \<open>low\<close>, \<open>Infinity\<close> gives
  \<open>high\<close>).
\<close>

theorem confidence_partition:
  "calculateConfidence data metric \<in> {''high'', ''moderate'', ''low''}
   \<and> (calculateConfidence data metric = ''high'')
     = js_gt (js_div (Math_mean data) (Math_std data)) (Num 2)
   \<and> (calculateConfidence data metric = ''moderate'')
     = (\<not> js_gt (js_div (Math_mean data) (Math_std data)) (Num 2)
        \<and> js_gt (js_div (Math_mean data) (Math_std data)) (Num 1))
   \<and> (calculateConfidence data metric = ''low'')
     = (\<not> js_gt (js_div (Math_mean data) (Math_std data)) (Num 2)
        \<and> \<not> js_gt (js_div (Math_mean data) (Math_std data)) (Num 1))
   \<and> (js_div (Math_mean data) (Math_std data) = Num 2
        \<longrightarrow> calculateConfidence data metric = ''moderate'')
   \<and> (js_div (Math_mean data) (Math_std data) = NaN
        \<longrightarrow> calculateConfidence data metric = ''low'')
   \<and> (js_div (Math_mean data) (Math_std data) = PosInf
        \<longrightarrow> calculateConfidence data metric = ''high'')
   \<and> (js_div (Math_mean data) (Math_std data) = NegInf
        \<longrightarrow> calculateConfidence data metric = ''low'')"
  by (simp add: calculateConfidence_def Let_def js_gt_def)

theorem confidence_partition_witness:
  "js_div (Math_mean [Num 1, Num 3]) (Math_std [Num 1, Num 3]) = Num 2
   \<and> calculateConfidence [Num 1, Num 3] ''hr'' = ''moderate''
   \<and> js_div (Math_mean []) (Math_std []) = NaN
   \<and> calculateConfidence [] ''hrv'' = ''low''
   \<and> js_div (Math_mean [Num 5, Num 5]) (Math_std [Num 5, Num 5]) = PosInf
   \<and> calculateConfidence [Num 5, Num 5] ''hr'' = ''high''
   \<and> js_div (Math_mean [Num (- 5), Num (- 5)]) (Math_std [Num (- 5), Num (- 5)]) = NegInf
   \<and> calculateConfidence [Num (- 5), Num (- 5)] ''hr'' = ''low''"
  using confidence_partition [of "[Num 1, Num 3]" "''hr''"]
    confidence_partition [of "[]" "''hrv''"]
    confidence_partition [of "[Num 5, Num 5]" "''hr''"]
    confidence_partition [of "[Num (- 5), Num (- 5)]" "''hr''"]
  by (simp add: Math_mean_def Math_std_def length_or_1_def Math_pow2_def js_sub_def fl_ops
      js_inf_def Let_def)

section \<open>Health summary\<close>

text \<open>
  C10, amended. For every bundle with heart rate 72 and SpO2 97 whose HRV value is not
  below 20 and whose stress score is not above 70, the summary has the status
  \<open>Healthy\<close> and no concerns, and \<open>identifyHealthConcerns\<close> returns the empty list.
\<close>

theorem healthy_summary:
  assumes "value_vm (heartRate v) = Num 72" and "value_ox (spO2 v) = Some (Num 97)"
    and "\<not> js_lt (value_vm (hrv v)) (Num 20)" and "\<not> js_gt (value_st (stressLevel v)) (Num 70)"
  shows "overallStatus (generateHealthSummary v) = ''Healthy''
     \<and> concerns_hs (generateHealthSummary v) = []
     \<and> identifyHealthConcerns v = []"
  using assms
  by (simp add: generateHealthSummary_def identifyHealthConcerns_def Let_def js_gt_def js_ge_def)

theorem healthy_summary_witness:
  "value_vm (heartRate sample_vitals) = Num 72 \<and> value_ox (spO2 sample_vitals) = Some (Num 97)
   \<and> \<not> js_lt (value_vm (hrv sample_vitals)) (Num 20)
   \<and> \<not> js_gt (value_st (stressLevel sample_vitals)) (Num 70)
   \<and> overallStatus (generateHealthSummary sample_vitals) = ''Healthy''
   \<and> concerns_hs (generateHealthSummary sample_vitals) = []
   \<and> identifyHealthConcerns sample_vitals = []"
  using healthy_summary [of sample_vitals]
  by (simp add: sample_vitals_def calculateStressLevel_def hrvScore_def respiratoryScore_def
      Let_def js_gt_def)

text \<open>
  C10, as the claim states it, fails: heart rate 72 and SpO2 97 do not decide the
  summary. For the regular pulse the HRV value is 1 and the stress score 82; the
  summary holds two concerns and the status is \<open>Needs Attention\<close>.
\<close>

theorem healthy_summary_counterexample:
  "value_vm (heartRate regular_pulse_vitals) = Num 72
   \<and> value_ox (spO2 regular_pulse_vitals) = Some (Num 97)
   \<and> overallStatus (generateHealthSummary regular_pulse_vitals) = ''Needs Attention''
   \<and> concerns_hs (generateHealthSummary regular_pulse_vitals)
      = [Plain ''Lower than optimal heart rate variability'',
         Plain ''Elevated stress levels detected'']
   \<and> identifyHealthConcerns regular_pulse_vitals \<noteq> []"
  by (simp add: regular_pulse_vitals_def sample_vitals_def generateHealthSummary_def
      identifyHealthConcerns_def calculateStressLevel_def hrvScore_def respiratoryScore_def
      Let_def js_gt_def js_ge_def)

section \<open>Normalisation at zero variance\<close>

lemma fl_div_zero:
  "fl_div d (Num 0)
   = (if js_lt (Num 0) d then PosInf else if js_lt d (Num 0) then NegInf else NaN)"
  by (cases d) (simp_all add: fl_div_def js_inf_def)

lemma normalize_nth:
  assumes "Math_std s = Num 0" "i < length s"
  shows "normalizeSignal s ! i
   = (if js_lt (Num 0) (fl_sub (s ! i) (Math_mean s)) then PosInf
      else if js_lt (fl_sub (s ! i) (Math_mean s)) (Num 0) then NegInf else NaN)"
  using assms by (simp add: normalizeSignal_def Let_def fl_div_zero)

lemma normalize_special:
  assumes "Math_std s = Num 0" "y \<in> set (normalizeSignal s)"
  shows "y = NaN \<or> y = PosInf \<or> y = NegInf"
proof -
  from assms(2) obtain i where "i < length (normalizeSignal s)" "y = normalizeSignal s ! i"
    by (auto simp: in_set_conv_nth)
  then have "i < length s" "y = normalizeSignal s ! i"
    by (simp_all add: normalizeSignal_def Let_def)
  with normalize_nth [OF assms(1), of i] show ?thesis by (simp split: if_splits)
qed

lemma normalize_at_mean:
  assumes "Math_std s = Num 0" "\<forall>x \<in> set s. fl_sub x (Math_mean s) = Num 0"
  shows "normalizeSignal s = replicate (length s) NaN"
proof -
  have "map (\<lambda>value. fl_div (fl_sub value (Math_mean s)) (Math_std s)) s
        = map (\<lambda>value. NaN) s"
    using assms by (intro map_cong) (auto simp: fl_div_zero)
  then show ?thesis
    by (simp add: normalizeSignal_def Let_def map_replicate_const)
qed

text \<open>
  C1, amended. \<open>normalizeSignal\<close> has no guard for a standard deviation of zero. For
  every series whose computed standard deviation is 0 it returns a series of the same
  length in which every element is the quotient of a difference by zero: \<open>NaN\<close> where
  the sample minus the computed mean is 0, \<open>Infinity\<close> where it is positive and
  \<open>-Infinity\<close> where it is negative. No element is 0 or any other finite number.
\<close>

theorem normalize_zero_std:
  assumes "Math_std s = Num 0"
  shows "length (normalizeSignal s) = length s
    \<and> (\<forall>y \<in> set (normalizeSignal s). y = NaN \<or> y = PosInf \<or> y = NegInf)
    \<and> (\<forall>i < length s. normalizeSignal s ! i
          = (if js_lt (Num 0) (fl_sub (s ! i) (Math_mean s)) then PosInf
             else if js_lt (fl_sub (s ! i) (Math_mean s)) (Num 0) then NegInf else NaN))"
  using normalize_special [OF assms] normalize_nth [OF assms]
  by (simp add: normalizeSignal_def Let_def)

text \<open>
  C1, as the claim states it, fails: the series \<open>[5, 5, 5]\<close> has mean 5 and standard
  deviation 0, and every element is normalised to \<open>(5 - 5) / 0 = NaN\<close>, not to 0.
\<close>

theorem normalize_zero_std_counterexample:
  "Math_std [Num 5, Num 5, Num 5] = Num 0
   \<and> normalizeSignal [Num 5, Num 5, Num 5] = [NaN, NaN, NaN]
   \<and> normalizeSignal [Num 5, Num 5, Num 5] \<noteq> [Num 0, Num 0, Num 0]"
  by (simp add: normalizeSignal_def Math_mean_def Math_std_def length_or_1_def
      Math_pow2_def js_sub_def fl_ops js_inf_def Let_def)

text \<open>
  A series with standard deviation 0 that is not constant: the squares of the
  differences from the mean underflow to 0. Its two samples are \<open>0\<close> and \<open>2^-600\<close>.
\<close>

lemma fl_pow2:
  assumes "- 1022 \<le> e" "e < 1023"
  shows "fl (pow2 e) = Num (pow2 e)"
proof -
  have "pow2 e < pow2 (e + 1)" by (simp add: pow2_powr)
  then have "fl (pow2 e) = Num (of_int (rne (pow2 e / pow2 (e - 52))) * pow2 (e - 52))"
    using assms by (intro fl_normal) simp_all
  moreover have "pow2 e = pow2 52 * pow2 (e - 52)"
    using pow2_add [of 52 "e - 52"] by simp
  then have "pow2 e / pow2 (e - 52) = of_int (2 ^ 52)"
    by (simp add: pow2_def [of 52])
  moreover have "of_int (2 ^ 52) * pow2 (e - 52) = pow2 e"
    using pow2_add [of 52 "e - 52"] by (simp add: pow2_def [of 52])
  ultimately show ?thesis by (simp only: rne_int)
qed

lemma fl_tiny:
  assumes "\<bar>x\<bar> < pow2 (- 1075)"
  shows "fl x = Num 0"
proof (cases "x = 0")
  case True
  then show ?thesis by simp
next
  case False
  then have pos: "0 < \<bar>x\<bar>" by simp
  have "log 2 \<bar>x\<bar> < - 1075"
    using assms pos by (simp add: log_less_iff pow2_powr)
  then have "\<lfloor>log 2 \<bar>x\<bar>\<rfloor> < - 1075" by (simp add: floor_less_iff)
  then have b: "binade x = - 1022" by (simp add: binade_def)
  have "pow2 (- 1075) * 2 = pow2 (- 1074)"
    using pow2_add [of "- 1075" 1] by (simp add: pow2_def [of 1])
  with assms have "\<bar>x\<bar> / pow2 (- 1074) < 1 / 2"
    by (simp add: pos_divide_less_eq)
  moreover have "0 \<le> \<bar>x\<bar> / pow2 (- 1074)" by simp
  ultimately have "\<lfloor>\<bar>x\<bar> / pow2 (- 1074)\<rfloor> = 0" by (intro floor_unique) simp_all
  with \<open>\<bar>x\<bar> / pow2 (- 1074) < 1 / 2\<close> have r: "rne (\<bar>x\<bar> / pow2 (- 1074)) = 0"
    by (simp add: rne_def)
  have q: "binade x - 52 = - 1074" using b by simp
  show ?thesis unfolding fl_def Let_def q r by simp
qed

lemma underflow_mean:
  "Math_mean [Num 0, Num (pow2 (- 600))] = Num (pow2 (- 601))"
proof -
  have "pow2 (- 600) = pow2 (- 601) * 2"
    using pow2_add [of "- 601" 1] by (simp add: pow2_def [of 1])
  then have half: "pow2 (- 600) / 2 = pow2 (- 601)" by simp
  have "foldl fl_add (Num 0) [Num 0, Num (pow2 (- 600))] = Num (pow2 (- 600))"
    by (simp add: fl_add_def fl_pow2)
  moreover have "fl_div (Num (pow2 (- 600))) (Num 2) = fl (pow2 (- 600) / 2)"
    by (simp add: fl_div_def)
  moreover have "fl (pow2 (- 600) / 2) = Num (pow2 (- 601))"
    by (simp only: half) (simp add: fl_pow2)
  ultimately show ?thesis
    by (simp add: Math_mean_def length_or_1_def)
qed

lemma underflow_std: "Math_std [Num 0, Num (pow2 (- 600))] = Num 0"
proof -
  have half: "pow2 (- 600) - pow2 (- 601) = pow2 (- 601)"
    using pow2_add [of "- 601" 1] by (simp add: pow2_def [of 1])
  have sq: "pow2 (- 601) * pow2 (- 601) = pow2 (- 1202)"
    using pow2_add [of "- 601" "- 601"] by simp
  have small: "fl (pow2 (- 1202)) = Num 0"
    by (intro fl_tiny) (simp add: pow2_powr)
  have d0: "fl_sub (Num 0) (Num (pow2 (- 601))) = Num (- pow2 (- 601))"
    by (simp add: fl_sub_def js_sub_def fl_minus fl_pow2)
  have d1: "fl_sub (Num (pow2 (- 600))) (Num (pow2 (- 601))) = Num (pow2 (- 601))"
    by (simp add: fl_sub_def js_sub_def half fl_pow2)
  show ?thesis
    unfolding Math_std_def Let_def underflow_mean
    by (simp add: d0 d1 Math_pow2_def sq small length_or_1_def fl_add_def fl_div_def)
qed

lemma list2_eq: "length xs = 2 \<Longrightarrow> xs ! 0 = a \<Longrightarrow> xs ! 1 = b \<Longrightarrow> xs = [a, b]"
  by (auto simp: length_Suc_conv numeral_2_eq_2)

theorem normalize_zero_std_witness:
  "Math_std [Num 7, Num 7] = Num 0 \<and> normalizeSignal [Num 7, Num 7] = [NaN, NaN]
   \<and> Math_std [Num 0, Num (pow2 (- 600))] = Num 0
   \<and> normalizeSignal [Num 0, Num (pow2 (- 600))] = [NegInf, PosInf]"
proof -
  have a: "Math_std [Num 7, Num 7] = Num 0" "Math_mean [Num 7, Num 7] = Num 7"
    by (simp_all add: Math_mean_def Math_std_def length_or_1_def Math_pow2_def js_sub_def
        fl_ops Let_def)
  have half: "pow2 (- 600) - pow2 (- 601) = pow2 (- 601)"
    using pow2_add [of "- 601" 1] by (simp add: pow2_def [of 1])
  have d0: "fl_sub (Num 0) (Num (pow2 (- 601))) = Num (- pow2 (- 601))"
    by (simp add: fl_sub_def js_sub_def fl_minus fl_pow2)
  have d1: "fl_sub (Num (pow2 (- 600))) (Num (pow2 (- 601))) = Num (pow2 (- 601))"
    by (simp add: fl_sub_def js_sub_def half fl_pow2)
  from normalize_zero_std [OF a(1)] have "normalizeSignal [Num 7, Num 7] = [NaN, NaN]"
    by (intro list2_eq) (simp_all add: a(2) fl_sub_def js_sub_def)
  moreover from normalize_zero_std [OF underflow_std]
  have "normalizeSignal [Num 0, Num (pow2 (- 600))] = [NegInf, PosInf]"
    by (intro list2_eq) (simp_all add: underflow_mean d0 d1)
  ultimately show ?thesis using a(1) underflow_std by simp
qed

text \<open>
  A constant series whose standard deviation is not 0: three samples of the binary64
  value of \<open>0.1\<close>. The running sum is rounded, the computed mean is the next binary64
  value above the samples, the standard deviation is \<open>2^-56\<close>, and every element is
  normalised to \<open>-1\<close>.
\<close>

lemma normalize_tenths:
  "Math_std [Num (3602879701896397 / 36028797018963968), Num (3602879701896397 / 36028797018963968), Num (3602879701896397 / 36028797018963968)] = Num (1 / 72057594037927936)
   \<and> normalizeSignal [Num (3602879701896397 / 36028797018963968), Num (3602879701896397 / 36028797018963968), Num (3602879701896397 / 36028797018963968)] = [Num (- 1), Num (- 1), Num (- 1)]"
proof -
  have a1: "fl_add (Num 0) (Num (3602879701896397 / 36028797018963968)) = Num (3602879701896397 / 36028797018963968)"
    by (simp add: fl_add_def, subst fl_normal [where e = "- 4"]) (simp_all add: pow2_def rne_def)
  have a2: "fl_add (Num (3602879701896397 / 36028797018963968)) (Num (3602879701896397 / 36028797018963968)) = Num (3602879701896397 / 18014398509481984)"
    by (simp add: fl_add_def, subst fl_normal [where e = "- 3"]) (simp_all add: pow2_def rne_def)
  have a3: "fl_add (Num (3602879701896397 / 18014398509481984)) (Num (3602879701896397 / 36028797018963968)) = Num (1351079888211149 / 4503599627370496)"
    by (simp add: fl_add_def, subst fl_normal [where e = "- 2"]) (simp_all add: pow2_def rne_def)
  have m: "fl_div (Num (1351079888211149 / 4503599627370496)) (Num 3) = Num (7205759403792795 / 72057594037927936)"
    by (simp add: fl_div_def, subst fl_normal [where e = "- 4"]) (simp_all add: pow2_def rne_def)
  have p: "fl (1 / 72057594037927936) = Num (1 / 72057594037927936)"
    by (subst fl_normal [where e = "- 56"]) (simp_all add: pow2_def rne_def)
  have df: "fl_sub (Num (3602879701896397 / 36028797018963968)) (Num (7205759403792795 / 72057594037927936)) = Num (- (1 / 72057594037927936))"
    by (simp add: fl_sub_def js_sub_def fl_minus p)
  have sq: "rnd (Math_pow2 (Num (- (1 / 72057594037927936)))) = Num (1 / 5192296858534827628530496329220096)"
    by (simp add: Math_pow2_def, subst fl_normal [where e = "- 112"]) (simp_all add: pow2_def rne_def)
  have b1: "fl_add (Num 0) (Num (1 / 5192296858534827628530496329220096)) = Num (1 / 5192296858534827628530496329220096)"
    by (simp add: fl_add_def, subst fl_normal [where e = "- 112"]) (simp_all add: pow2_def rne_def)
  have b2: "fl_add (Num (1 / 5192296858534827628530496329220096)) (Num (1 / 5192296858534827628530496329220096)) = Num (1 / 2596148429267413814265248164610048)"
    by (simp add: fl_add_def, subst fl_normal [where e = "- 111"]) (simp_all add: pow2_def rne_def)
  have b3: "fl_add (Num (1 / 2596148429267413814265248164610048)) (Num (1 / 5192296858534827628530496329220096)) = Num (3 / 5192296858534827628530496329220096)"
    by (simp add: fl_add_def, subst fl_normal [where e = "- 111"]) (simp_all add: pow2_def rne_def)
  have vr: "fl_div (Num (3 / 5192296858534827628530496329220096)) (Num 3) = Num (1 / 5192296858534827628530496329220096)"
    by (simp add: fl_div_def, subst fl_normal [where e = "- 112"]) (simp_all add: pow2_def rne_def)
  have "(1 / 5192296858534827628530496329220096 :: real) = (1 / 72057594037927936)\<^sup>2" by (simp add: power2_eq_square)
  then have "sqrt (1 / 5192296858534827628530496329220096) = 1 / 72057594037927936" by (simp only: real_sqrt_abs)
  then have rt: "sqrt (1 / 5192296858534827628530496329220096) = 1 / 72057594037927936" .
  have sd: "rnd (Math_sqrt (Num (1 / 5192296858534827628530496329220096))) = Num (1 / 72057594037927936)"
  proof -
    have "Math_sqrt (Num (1 / 5192296858534827628530496329220096)) = Num (1 / 72057594037927936)"
      using rt by simp
    then show ?thesis by (simp only: rnd.simps p)
  qed
  have mean: "Math_mean [Num (3602879701896397 / 36028797018963968), Num (3602879701896397 / 36028797018963968), Num (3602879701896397 / 36028797018963968)] = Num (7205759403792795 / 72057594037927936)"
    by (simp add: Math_mean_def length_or_1_def a1 a2 a3 m)
  have std: "Math_std [Num (3602879701896397 / 36028797018963968), Num (3602879701896397 / 36028797018963968), Num (3602879701896397 / 36028797018963968)] = Num (1 / 72057594037927936)"
    unfolding Math_std_def Let_def mean
    by (simp add: length_or_1_def df sq b1 b2 b3 vr sd rt p)
  have "fl_div (Num (- (1 / 72057594037927936))) (Num (1 / 72057594037927936)) = Num (- 1)"
    by (simp add: fl_div_def)
  then show ?thesis
    using mean std by (simp add: normalizeSignal_def Let_def df)
qed


section \<open>A constant series through the pipeline\<close>

lemma foldl_fl_add_int:
  assumes "0 \<le> a" "0 \<le> k" "a + int n * k < 2 ^ 53"
  shows "foldl fl_add (Num (of_int a)) (replicate n (Num (of_int k)))
         = Num (of_int (a + int n * k))"
  using assms
proof (induction n arbitrary: a)
  case 0
  then show ?case by simp
next
  case (Suc n)
  have le: "a + k \<le> a + int (Suc n) * k"
    using Suc.prems(2) by (simp add: algebra_simps)
  then have "\<bar>a + k\<bar> < 2 ^ 53" using Suc.prems by simp
  then have "fl (of_int (a + k)) = Num (of_int (a + k))" by (rule fl_int)
  then have step: "fl_add (Num (of_int a)) (Num (of_int k)) = Num (of_int (a + k))"
    by (simp add: fl_add_def)
  have "foldl fl_add (Num (of_int (a + k))) (replicate n (Num (of_int k)))
        = Num (of_int (a + k + int n * k))"
    using Suc.prems by (intro Suc.IH) (simp_all add: algebra_simps)
  then show ?case by (simp add: step algebra_simps)
qed

lemma mean_const_int:
  assumes "0 < n" "0 \<le> k" "int n * k < 2 ^ 53"
  shows "Math_mean (replicate n (Num (of_int k))) = Num (of_int k)"
proof -
  have "foldl fl_add (Num 0) (replicate n (Num (of_int k))) = Num (of_int (int n * k))"
    using foldl_fl_add_int [of 0 k n] assms by simp
  moreover have "real_of_int (int n * k) / real n = of_int k"
    using assms(1) by simp
  moreover have "\<bar>k\<bar> < 2 ^ 53"
  proof -
    have "k \<le> int n * k" using assms(1,2) by (simp add: mult_le_cancel_right1)
    with assms show ?thesis by simp
  qed
  ultimately show ?thesis
    using assms(1) by (simp add: Math_mean_def length_or_1_def fl_div_def fl_int)
qed

lemma foldl_zero_terms:
  "h x = Num 0 \<Longrightarrow> foldl (\<lambda>a b. fl_add a (h b)) (Num 0) (replicate n x) = Num 0"
  by (induction n) simp_all

lemma std_const_int:
  assumes "0 < n" "0 \<le> k" "int n * k < 2 ^ 53"
  shows "Math_std (replicate n (Num (of_int k))) = Num 0"
  using assms(1)
  by (simp add: Math_std_def Let_def mean_const_int [OF assms] foldl_zero_terms Math_pow2_def
      fl_sub_def js_sub_def fl_div_def length_or_1_def)

lemma normalize_const_int:
  assumes "0 < n" "0 \<le> k" "int n * k < 2 ^ 53"
  shows "normalizeSignal (replicate n (Num (of_int k))) = replicate n NaN"
  using normalize_at_mean [of "replicate n (Num (of_int k))"]
  by (simp add: std_const_int [OF assms] mean_const_int [OF assms] fl_sub_def js_sub_def)

lemma foldl_from_NaN: "foldl (\<lambda>a b. js_add a (h b)) NaN xs = NaN"
  by (induction xs) simp_all

lemma foldl_NaN_terms:
  "h x = NaN \<Longrightarrow> 0 < n \<Longrightarrow> foldl (\<lambda>a b. js_add a (h b)) a0 (replicate n x) = NaN"
  by (cases n) (simp_all add: foldl_from_NaN)

lemma foldl_add_NaNs: "0 < n \<Longrightarrow> foldl js_add a0 (replicate n NaN) = NaN"
  using foldl_NaN_terms [of "\<lambda>b. b" NaN n a0] by simp

lemma foldl_fl_from_NaN: "foldl fl_add NaN xs = NaN"
  by (induction xs) simp_all

lemma mean_NaNs: "0 < n \<Longrightarrow> Math_mean (replicate n NaN) = NaN"
  by (cases n) (simp_all add: Math_mean_def foldl_fl_from_NaN fl_div_def)

lemma movingAverage_NaNs:
  assumes "0 < w"
  shows "movingAverage (replicate n NaN) w = replicate n NaN"
proof -
  have "map (\<lambda>i. window_mean (drop (Suc i - w) (take (Suc i) (replicate n NaN)))) [0 ..< n]
        = map (\<lambda>i. NaN) [0 ..< n]"
  proof (intro map_cong refl)
    fix i assume "i \<in> set [0 ..< n]"
    then have i: "i < n" by simp
    have "min (Suc i) n = Suc i" using i by simp
    then have window: "drop (Suc i - w) (take (Suc i) (replicate n NaN))
          = replicate (Suc i - (Suc i - w)) NaN"
      by (simp only: take_replicate drop_replicate)
    have "0 < Suc i - (Suc i - w)" using assms by arith
    then have "window_mean (replicate (Suc i - (Suc i - w)) NaN) = NaN"
      by (simp add: window_mean_def foldl_add_NaNs)
    then show "window_mean (drop (Suc i - w) (take (Suc i) (replicate n NaN))) = NaN"
      by (simp only: window)
  qed
  then show ?thesis
    by (simp add: movingAverage_trailing trailing_average_def map_replicate_const)
qed

lemma findPeaksTroughs_NaNs:
  "findPeaksTroughs (replicate n NaN) = \<lparr>pt_peaks = [], pt_troughs = []\<rparr>"
  by (auto simp: findPeaksTroughs_def filter_empty_conv js_gt_def)

lemma components_NaNs:
  assumes "0 < n"
  shows "calculateACDCComponents (replicate n NaN)
    = \<lparr>ac_c = Num 0, dc_c = NaN, perfusion_c = NaN, peaks_c = [], troughs_c = [],
       signal_c = replicate n NaN\<rparr>"
proof -
  have "map (\<lambda>i. js_sub (replicate n NaN ! i) (replicate n NaN ! i)) [0 ..< n]
        = map (\<lambda>i. NaN) [0 ..< n]"
    by (intro map_cong refl) (simp add: js_sub_def)
  then have ac: "map (\<lambda>i. js_sub (replicate n NaN ! i) (replicate n NaN ! i)) [0 ..< n]
        = replicate n NaN"
    by (simp add: map_replicate_const)
  have mean_nil: "Math_mean [] = Num 0"
    by (simp add: Math_mean_def length_or_1_def fl_div_def)
  show ?thesis
    unfolding calculateACDCComponents_def Let_def movingAverage_NaNs [OF zero_less_numeral]
      length_replicate ac findPeaksTroughs_NaNs
    using assms by (simp add: mean_NaNs mean_nil js_sub_def)
qed

lemma area_NaNs: "0 < n \<Longrightarrow> calculateAreaUnderCurve (replicate n NaN) = NaN"
  by (simp add: calculateAreaUnderCurve_def foldl_NaN_terms)

lemma quality_NaNs:
  "0 < n \<Longrightarrow> confidence_qa (assessSignalQuality (replicate n NaN) (replicate n NaN) R) = ''low''"
  by (simp add: assessSignalQuality_def Let_def calculateSNR_def mean_NaNs
      determineConfidenceLevel_def js_gt_def)

lemma spO2_of_NaNs:
  assumes "0 < n"
  shows "value_ox (spO2_of \<lparr>redSignal_out = replicate n NaN, infraredSignal_out = replicate n NaN\<rparr>)
           = Some NaN
    \<and> confidence_ox (spO2_of \<lparr>redSignal_out = replicate n NaN,
                               infraredSignal_out = replicate n NaN\<rparr>) = ''low''
    \<and> error_ox (spO2_of \<lparr>redSignal_out = replicate n NaN,
                          infraredSignal_out = replicate n NaN\<rparr>) = None"
  using assms
  by (simp add: spO2_of_def Let_def butterworth_eq
      movingAverage_NaNs components_NaNs calculateRatioAmplitude_def calculateRatioArea_def
      area_NaNs calculateCalibatedSpO2_def Math_max_def Math_min_def js_sub_def quality_NaNs)

text \<open>The binary64 values of \<open>0.6\<close> and \<open>0.4\<close>, and the infrared sample of a frame of 100s.\<close>

lemma fl_six_tenths: "fl (3 / 5) = Num (5404319552844595 / 9007199254740992)"
  by (subst fl_normal [where e = "- 1"]) (simp_all add: pow2_def rne_def)

lemma fl_four_tenths: "fl (2 / 5) = Num (3602879701896397 / 9007199254740992)"
  by (subst fl_normal [where e = "- 2"]) (simp_all add: pow2_def rne_def)

lemma infrared_100:
  "fl_add (fl_mul (Num 100) (fl (3 / 5))) (fl_mul (Num 100) (fl (2 / 5))) = Num 100"
proof -
  have "fl_mul (Num 100) (fl (3 / 5)) = Num 60"
    unfolding fl_six_tenths fl_mul_def
    by (simp, subst fl_normal [where e = 5]) (simp_all add: pow2_def rne_def)
  moreover have "fl_mul (Num 100) (fl (2 / 5)) = Num 40"
    unfolding fl_four_tenths fl_mul_def
    by (simp, subst fl_normal [where e = 5]) (simp_all add: pow2_def rne_def)
  ultimately show ?thesis by (simp add: fl_add_def)
qed

lemma those_replicate: "those (replicate n (Some x)) = Some (replicate n x)"
  by (induction n) simp_all

lemma preprocess_constant:
  "preprocessSignals (map Some constant_frames)
   = Inr \<lparr>redSignal_out = replicate 50 NaN, infraredSignal_out = replicate 50 NaN\<rparr>"
  using normalize_const_int [of 50 100]
  by (simp add: preprocessSignals_def those_replicate constant_frames_def Let_def rgb0_def
      rgb2_def infrared_100)

lemma detectPeaks_const: "detectPeaks (replicate n (Num g)) = []"
  by (auto simp: detectPeaks_def filter_empty_conv js_gt_def)

lemma heartRate_constant: "value_vm (calculateHeartRate constant_frames) = Num 0"
  by (simp add: calculateHeartRate_def constant_frames_def Let_def rgb1_def detectPeaks_const)

lemma caught:
  "calculateSpO2_try a = Inl e \<Longrightarrow>
   value_ox (calculateSpO2 a) = None \<and> confidence_ox (calculateSpO2 a) = ''low''
   \<and> error_ox (calculateSpO2 a) = Some e"
  by (simp add: calculateSpO2_def)

lemma null_iff_raised:
  "(value_ox (calculateSpO2 a) = None) = (\<exists>e. calculateSpO2_try a = Inl e)"
  by (cases a)
     (auto simp: calculateSpO2_def calculateSpO2_try_def spO2_of_def Let_def split: sum.splits)

text \<open>
  C2. On the constant series of 50 frames \<open>(100, 100, 100)\<close> the heart rate is computed
  (it is 0) and the HRV has the value 0 and the confidence \<open>low\<close>, as the claim says.
  The SpO2 result has the confidence \<open>low\<close>, but its value is \<open>NaN\<close> and it carries no
  error, where the claim says \<open>null\<close>: the standard deviation 0 makes every quotient
  \<open>NaN\<close>, nothing is raised, and the \<open>try\<close> block runs to its end. What the block does
  raise is caught, as the claim says: the result then has the value \<open>null\<close>, the
  confidence \<open>low\<close> and the error; and the value is \<open>null\<close> in that case only.
\<close>

theorem constant_series:
  "value_vm (calculateHeartRate constant_frames) = Num 0
   \<and> value_vm (calculateHRV constant_frames) = Num 0
   \<and> confidence_vm (calculateHRV constant_frames) = ''low''
   \<and> value_ox (calculateSpO2 (Frames (map Some constant_frames))) = Some NaN
   \<and> confidence_ox (calculateSpO2 (Frames (map Some constant_frames))) = ''low''
   \<and> error_ox (calculateSpO2 (Frames (map Some constant_frames))) = None
   \<and> (calculateSpO2_try a = Inl e \<longrightarrow>
        value_ox (calculateSpO2 a) = None \<and> confidence_ox (calculateSpO2 a) = ''low''
        \<and> error_ox (calculateSpO2 a) = Some e)
   \<and> (value_ox (calculateSpO2 a) = None) = (\<exists>e. calculateSpO2_try a = Inl e)"
proof -
  have "length (detectPeaks (map rgb1 constant_frames)) < 2"
    by (simp add: constant_frames_def rgb1_def detectPeaks_const)
  then have "calculateHRV constant_frames
    = \<lparr>value_vm = Num 0, unit_vm = ''ms'', confidence_vm = ''low'',
       methodology_vm = ''rPPG signal interval analysis''\<rparr>"
    by (rule hrv_few_peaks)
  moreover have "calculateSpO2 (Frames (map Some constant_frames))
    = spO2_of \<lparr>redSignal_out = replicate 50 NaN, infraredSignal_out = replicate 50 NaN\<rparr>"
    by (simp add: calculateSpO2_def calculateSpO2_try_def preprocess_constant)
  ultimately show ?thesis
    using heartRate_constant spO2_of_NaNs [of 50] caught [of a e] null_iff_raised [of a]
    by simp
qed

theorem constant_series_witness:
  "calculateSpO2_try (Frames [Some (Num 100, Num 100, Num 100), None]) = Inl TypeError
   \<and> value_ox (calculateSpO2 (Frames [Some (Num 100, Num 100, Num 100), None])) = None
   \<and> confidence_ox (calculateSpO2 (Frames [Some (Num 100, Num 100, Num 100), None])) = ''low''
   \<and> error_ox (calculateSpO2 (Frames [Some (Num 100, Num 100, Num 100), None])) = Some TypeError
   \<and> value_ox (calculateSpO2 Not_an_array) = None
   \<and> value_ox (calculateSpO2 (Frames (map Some constant_frames))) = Some NaN"
  using constant_series [of "Frames [Some (Num 100, Num 100, Num 100), None]" TypeError]
    constant_series [of Not_an_array TypeError]
  by (simp add: calculateSpO2_try_def preprocessSignals_def)

section \<open>Overall confidence\<close>

text \<open>The rounding error of \<open>fl\<close> below 8 is at most half of \<open>2^-50\<close>.\<close>

lemma fl_error:
  assumes "\<bar>x\<bar> < 8"
  shows "\<exists>y. fl x = Num y \<and> \<bar>y - x\<bar> \<le> 1 / 2 ^ 51"
proof (cases "x = 0")
  case True
  then show ?thesis by simp
next
  case False
  define q where "q = pow2 (binade x - 52)"
  define n where "n = rne (\<bar>x\<bar> / q)"
  have qpos: "0 < q" by (simp add: q_def)
  have "\<bar>x\<bar> < 2 powr 3" using assms by simp
  then have "log 2 \<bar>x\<bar> < 3" using False by (simp add: log_less_iff)
  then have "\<lfloor>log 2 \<bar>x\<bar>\<rfloor> \<le> 2" by (simp add: floor_le_iff)
  then have "binade x \<le> 2" by (simp add: binade_def)
  then have "q \<le> pow2 (- 50)" unfolding q_def by (intro pow2_mono) simp
  then have q50: "q \<le> 1 / 2 ^ 50" by (simp add: pow2_def)
  have "\<bar>of_int n - \<bar>x\<bar> / q\<bar> \<le> 1 / 2"
    using rne_bounds [of "\<bar>x\<bar> / q"] unfolding n_def by linarith
  then have "\<bar>of_int n - \<bar>x\<bar> / q\<bar> * q \<le> (1 / 2) * q"
    using qpos by (intro mult_right_mono) simp_all
  moreover have "(of_int n - \<bar>x\<bar> / q) * q = of_int n * q - \<bar>x\<bar>"
    using qpos by (simp add: algebra_simps)
  then have "\<bar>of_int n - \<bar>x\<bar> / q\<bar> * q = \<bar>of_int n * q - \<bar>x\<bar>\<bar>"
    using qpos by (metis abs_mult abs_of_pos)
  ultimately have "\<bar>of_int n * q - \<bar>x\<bar>\<bar> \<le> q / 2" by simp
  with q50 have err: "\<bar>of_int n * q - \<bar>x\<bar>\<bar> \<le> 1 / 2 ^ 51" by simp
  have "(1::real) / 2 ^ 51 \<le> 1" by simp
  with err assms have "of_int n * q < 9" by linarith
  moreover have "9 \<le> pow2 1024" by (simp add: pow2_def)
  ultimately have nov: "\<not> pow2 1024 \<le> of_int n * q" by linarith
  show ?thesis
  proof (cases "x < 0")
    case True
    then have "fl x = Num (- (of_int n * q))"
      using nov by (simp add: fl_def Let_def q_def n_def)
    moreover have "\<bar>- (of_int n * q) - x\<bar> \<le> 1 / 2 ^ 51" using err True by linarith
    ultimately show ?thesis by blast
  next
    case False
    then have "fl x = Num (of_int n * q)"
      using nov by (simp add: fl_def Let_def q_def n_def)
    moreover have "\<bar>of_int n * q - x\<bar> \<le> 1 / 2 ^ 51" using err False by linarith
    ultimately show ?thesis by blast
  qed
qed

lemma fl_three_tenths: "fl (3 / 10) = Num (5404319552844595 / 18014398509481984)"
  by (subst fl_normal [where e = "- 2"]) (simp_all add: pow2_def rne_def)

lemma fl_eight_tenths: "fl (4 / 5) = Num (3602879701896397 / 4503599627370496)"
  by (subst fl_normal [where e = "- 1"]) (simp_all add: pow2_def rne_def)

lemma fl_half: "fl (1 / 2) = Num (1 / 2)"
  by (subst fl_normal [where e = "- 1"]) (simp_all add: pow2_def rne_def)

lemma confidenceScore_label:
  "c \<in> {''high'', ''moderate'', ''low''} \<Longrightarrow> confidenceScore_or_half c = label_double c"
  by (auto simp: confidenceScore_or_half_def confidenceScores_def label_double_def js_or_def
      fl_six_tenths fl_three_tenths)

lemma confidenceScore_labels:
  "set cs \<subseteq> {''high'', ''moderate'', ''low''} \<Longrightarrow>
   map confidenceScore_or_half cs = map label_double cs"
  by (induction cs) (simp_all add: confidenceScore_label)

lemma label_double_near:
  "\<exists>w. label_double c = Num w \<and> 0 < w \<and> w \<le> 1 \<and> \<bar>w - label_weight c\<bar> \<le> 1 / 2 ^ 54"
proof -
  consider "c = ''high''" | "c = ''moderate''" | "c \<noteq> ''high''" "c \<noteq> ''moderate''"
    by blast
  then show ?thesis
  proof cases
    case 1
    then show ?thesis
      by (intro exI [of _ 1]) (simp add: label_double_def label_weight_def)
  next
    case 2
    then show ?thesis
      by (intro exI [of _ "5404319552844595 / 9007199254740992"])
         (simp add: label_double_def label_weight_def fl_six_tenths)
  next
    case 3
    then show ?thesis
      by (intro exI [of _ "5404319552844595 / 18014398509481984"])
         (simp add: label_double_def label_weight_def fl_three_tenths)
  qed
qed

lemma length_measurements: "length (measurements v) = 6"
  by (simp add: measurements_def)

text \<open>
  The running sum of \<open>n\<close> weights differs from the exact sum by at most \<open>n / 2^50\<close>.
\<close>

lemma running_sum:
  fixes K :: real
  assumes "K = 1 + 1 / 2 ^ 50" "0 \<le> a" "a + real (length cs) * K \<le> 7"
  shows "\<exists>s. foldl fl_add (Num a) (map label_double cs) = Num s \<and> 0 \<le> s
             \<and> \<bar>s - (a + sum_list (map label_weight cs))\<bar> \<le> real (length cs) / 2 ^ 50"
  using assms(2,3)
proof (induction cs arbitrary: a)
  case Nil
  then show ?case by simp
next
  case (Cons c cs)
  define e50 :: real where "e50 = 1 / 2 ^ 50"
  define e51 :: real where "e51 = 1 / 2 ^ 51"
  define e54 :: real where "e54 = 1 / 2 ^ 54"
  define L where "L = real (length cs) * K"
  define S where "S = sum_list (map label_weight cs)"
  define D where "D = real (length cs) / 2 ^ 50"
  have eps: "e51 + e54 \<le> e50" "0 \<le> e51" "0 \<le> e54" "e50 \<le> 1 / 10"
    by (simp_all add: e50_def e51_def e54_def)
  have K: "K = 1 + e50" using assms(1) by (simp add: e50_def)
  obtain w where w: "label_double c = Num w" "0 < w" "w \<le> 1" "\<bar>w - label_weight c\<bar> \<le> e54"
    using label_double_near [of c] unfolding e54_def by blast
  have "real (length (c # cs)) * K = K + L"
    by (simp add: L_def algebra_simps)
  with Cons.prems(2) have bound: "a + K + L \<le> 7" by linarith
  have rest: "0 \<le> L" using K eps by (simp add: L_def)
  have "\<bar>a + w\<bar> < 8" using bound rest K eps Cons.prems(1) w(2,3) by linarith
  then obtain y where y: "fl (a + w) = Num y" "\<bar>y - (a + w)\<bar> \<le> e51"
    using fl_error unfolding e51_def by blast
  have step: "fl_add (Num a) (label_double c) = Num y"
    by (simp add: w(1) fl_add_def y(1))
  have lw: "3 / 10 \<le> label_weight c" by (simp add: label_weight_def)
  have y0: "0 \<le> y" using y(2) w(4) lw eps Cons.prems(1) by linarith
  have "y \<le> a + K" using y(2) w(3) eps K by linarith
  with bound have "y + real (length cs) * K \<le> 7" unfolding L_def by linarith
  from Cons.IH [OF y0 this] obtain s where s:
      "foldl fl_add (Num y) (map label_double cs) = Num s" "0 \<le> s"
      "\<bar>s - (y + S)\<bar> \<le> D"
    unfolding S_def D_def by blast
  have "\<bar>y - (a + label_weight c)\<bar> \<le> e50"
    using y(2) w(4) eps by linarith
  with s(3) have "\<bar>s - (a + (label_weight c + S))\<bar> \<le> D + e50"
    by linarith
  moreover have "real (length (c # cs)) / 2 ^ 50 = D + e50"
    by (simp add: D_def e50_def add_divide_distrib)
  ultimately have "\<bar>s - (a + sum_list (map label_weight (c # cs)))\<bar>
      \<le> real (length (c # cs)) / 2 ^ 50"
    by (simp add: S_def)
  with s(1,2) step show ?case by auto
qed

lemma score_near:
  assumes "set (measurements v) \<subseteq> {''high'', ''moderate'', ''low''}"
  shows "\<exists>a. score_oc (calculateOverallConfidence v) = Num a
              \<and> \<bar>a - exact_average (measurements v)\<bar> \<le> 1 / 2 ^ 49"
proof -
  define e49 :: real where "e49 = 1 / 2 ^ 49"
  define e50 :: real where "e50 = 1 / 2 ^ 50"
  define e51 :: real where "e51 = 1 / 2 ^ 51"
  define S where "S = sum_list (map label_weight (measurements v))"
  have eps: "e51 + e50 \<le> e49" "0 \<le> e50" "e50 \<le> 1 / 10"
    by (simp_all add: e49_def e50_def e51_def)
  have "(0::real) + real (length (measurements v)) * (1 + 1 / 2 ^ 50) \<le> 7"
    by (simp add: length_measurements)
  from running_sum [OF refl order_refl this] obtain s where s:
      "foldl fl_add (Num 0) (map label_double (measurements v)) = Num s" "0 \<le> s"
      "\<bar>s - S\<bar> \<le> 6 * e50"
    by (auto simp: length_measurements S_def e50_def)
  have "sum_list (map label_weight cs) \<le> real (length cs)" for cs
    by (induction cs) (simp_all add: label_weight_def)
  from this [of "measurements v"] have le6: "S \<le> 6"
    by (simp add: length_measurements S_def)
  have "\<bar>s / 6\<bar> < 8" using s(2,3) le6 eps by linarith
  then obtain a where a: "fl (s / 6) = Num a" "\<bar>a - s / 6\<bar> \<le> e51"
    using fl_error unfolding e51_def by blast
  have "score_oc (calculateOverallConfidence v) = Num a"
    by (simp add: calculateOverallConfidence_def Let_def confidenceScore_labels [OF assms] s(1)
        length_measurements fl_div_def a(1))
  moreover have "\<bar>a - S / 6\<bar> \<le> e49"
    using a(2) s(3) eps by linarith
  ultimately show ?thesis by (auto simp: exact_average_def S_def e49_def)
qed

text \<open>Ten times the exact sum of the weights is a whole number.\<close>

lemma weights_tenths: "\<exists>m :: int. sum_list (map label_weight cs) = of_int m / 10"
proof (induction cs)
  case Nil
  show ?case by (rule exI [of _ 0]) simp
next
  case (Cons c cs)
  then obtain m :: int where m: "sum_list (map label_weight cs) = of_int m / 10" by blast
  have "\<exists>k :: int. label_weight c = of_int k / 10"
  proof -
    have "label_weight c = of_int 10 / 10 \<or> label_weight c = of_int 6 / 10
          \<or> label_weight c = of_int 3 / 10"
      by (simp add: label_weight_def)
    then show ?thesis by blast
  qed
  then obtain k :: int where "label_weight c = of_int k / 10" by blast
  with m have "sum_list (map label_weight (c # cs)) = of_int (k + m) / 10"
    by (simp add: add_divide_distrib)
  then show ?case by blast
qed

lemma average_gap:
  assumes "exact_average cs \<noteq> of_int t / 60"
  shows "exact_average cs \<le> of_int t / 60 - 1 / 60 \<or> of_int t / 60 + 1 / 60 \<le> exact_average cs"
proof -
  obtain m :: int where m: "sum_list (map label_weight cs) = of_int m / 10"
    using weights_tenths by blast
  then have e: "exact_average cs = of_int m / 60" by (simp add: exact_average_def)
  with assms have "m \<noteq> t" by auto
  then have "m \<le> t - 1 \<or> t + 1 \<le> m" by linarith
  then have "real_of_int m \<le> of_int t - 1 \<or> of_int t + 1 \<le> real_of_int m"
    by (metis of_int_1 of_int_add of_int_diff of_int_le_iff)
  then show ?thesis unfolding e by (auto simp: field_simps)
qed

lemma level_exact:
  assumes "set (measurements v) \<subseteq> {''high'', ''moderate'', ''low''}"
    and "exact_average (measurements v) \<noteq> 8 / 10"
    and "exact_average (measurements v) \<noteq> 5 / 10"
  shows "level_oc (calculateOverallConfidence v) = bucket (exact_average (measurements v))"
proof -
  obtain a where a: "score_oc (calculateOverallConfidence v) = Num a"
      "\<bar>a - exact_average (measurements v)\<bar> \<le> 1 / 2 ^ 49"
    using score_near [OF assms(1)] by blast
  have lev: "level_oc (calculateOverallConfidence v)
      = (if 3602879701896397 / 4503599627370496 < a then ''high''
         else if 1 / 2 < a then ''moderate'' else ''low'')"
    using a(1)
    by (simp add: calculateOverallConfidence_def Let_def js_gt_def fl_eight_tenths fl_half)
  have g8: "exact_average (measurements v) \<le> 48 / 60 - 1 / 60
            \<or> 48 / 60 + 1 / 60 \<le> exact_average (measurements v)"
    using average_gap [of "measurements v" 48] assms(2) by simp
  have g5: "exact_average (measurements v) \<le> 30 / 60 - 1 / 60
            \<or> 30 / 60 + 1 / 60 \<le> exact_average (measurements v)"
    using average_gap [of "measurements v" 30] assms(3) by simp
  have small: "(1::real) / 2 ^ 49 \<le> 1 / 1000" by simp
  have h8: "(3602879701896397 / 4503599627370496 < a) = (8 / 10 < exact_average (measurements v))"
    using g8
  proof
    assume "exact_average (measurements v) \<le> 48 / 60 - 1 / 60"
    with a(2) small have "\<not> 3602879701896397 / 4503599627370496 < a"
        "\<not> 8 / 10 < exact_average (measurements v)"
      by linarith+
    then show ?thesis by simp
  next
    assume "48 / 60 + 1 / 60 \<le> exact_average (measurements v)"
    with a(2) small have "3602879701896397 / 4503599627370496 < a"
        "8 / 10 < exact_average (measurements v)"
      by linarith+
    then show ?thesis by simp
  qed
  have h5: "(1 / 2 < a) = (5 / 10 < exact_average (measurements v))"
    using g5
  proof
    assume "exact_average (measurements v) \<le> 30 / 60 - 1 / 60"
    with a(2) small have "\<not> 1 / 2 < a" "\<not> 5 / 10 < exact_average (measurements v)"
      by linarith+
    then show ?thesis by simp
  next
    assume "30 / 60 + 1 / 60 \<le> exact_average (measurements v)"
    with a(2) small have "1 / 2 < a" "5 / 10 < exact_average (measurements v)"
      by linarith+
    then show ?thesis by simp
  qed
  show ?thesis unfolding lev h8 h5 by (simp add: bucket_def)
qed

text \<open>The two bundles with three labels \<open>high\<close> and three labels \<open>moderate\<close>.\<close>

lemma tie_score:
  "fl_div (foldl fl_add (Num 0) (map label_double [''high'', ''high'', ''moderate'', ''moderate'', ''moderate'', ''high''])) (Num 6)
   = Num (7205759403792795 / 9007199254740992)"
proof -
  have s1: "fl_add (Num (2)) (Num (5404319552844595 / 9007199254740992)) = Num (5854679515581645 / 2251799813685248)"
    by (simp add: fl_add_def, subst fl_normal [where e = 1]) (simp_all add: pow2_def rne_def)
  have s2: "fl_add (Num (5854679515581645 / 2251799813685248)) (Num (5404319552844595 / 9007199254740992)) = Num (3602879701896397 / 1125899906842624)"
    by (simp add: fl_add_def, subst fl_normal [where e = 1]) (simp_all add: pow2_def rne_def)
  have s3: "fl_add (Num (3602879701896397 / 1125899906842624)) (Num (5404319552844595 / 9007199254740992)) = Num (8556839292003943 / 2251799813685248)"
    by (simp add: fl_add_def, subst fl_normal [where e = 1]) (simp_all add: pow2_def rne_def)
  have s4: "fl_add (Num (8556839292003943 / 2251799813685248)) (Num (1)) = Num (1351079888211149 / 281474976710656)"
    by (simp add: fl_add_def, subst fl_normal [where e = 2]) (simp_all add: pow2_def rne_def)
  have q: "fl_div (Num (1351079888211149 / 281474976710656)) (Num 6) = Num (7205759403792795 / 9007199254740992)"
    by (simp add: fl_div_def, subst fl_normal [where e = "- 1"]) (simp_all add: pow2_def rne_def)
  show ?thesis
    by (simp add: label_double_def fl_six_tenths fl_three_tenths fl_add_def [of "Num 0"]
        fl_add_def [of "Num 1" "Num 1"] fl_add_def [of "Num 2" "Num 1"] s1 s2 s3 s4 q)
qed

lemma tie_sorted_score:
  "fl_div (foldl fl_add (Num 0) (map label_double [''high'', ''high'', ''high'', ''moderate'', ''moderate'', ''moderate''])) (Num 6)
   = Num (7205759403792793 / 9007199254740992)"
proof -
  have s1: "fl_add (Num (3)) (Num (5404319552844595 / 9007199254740992)) = Num (8106479329266893 / 2251799813685248)"
    by (simp add: fl_add_def, subst fl_normal [where e = 1]) (simp_all add: pow2_def rne_def)
  have s2: "fl_add (Num (8106479329266893 / 2251799813685248)) (Num (5404319552844595 / 9007199254740992)) = Num (4728779608739021 / 1125899906842624)"
    by (simp add: fl_add_def, subst fl_normal [where e = 2]) (simp_all add: pow2_def rne_def)
  have s3: "fl_add (Num (4728779608739021 / 1125899906842624)) (Num (5404319552844595 / 9007199254740992)) = Num (5404319552844595 / 1125899906842624)"
    by (simp add: fl_add_def, subst fl_normal [where e = 2]) (simp_all add: pow2_def rne_def)
  have q: "fl_div (Num (5404319552844595 / 1125899906842624)) (Num 6) = Num (7205759403792793 / 9007199254740992)"
    by (simp add: fl_div_def, subst fl_normal [where e = "- 1"]) (simp_all add: pow2_def rne_def)
  show ?thesis
    by (simp add: label_double_def fl_six_tenths fl_three_tenths fl_add_def [of "Num 0"]
        fl_add_def [of "Num 1" "Num 1"] fl_add_def [of "Num 2" "Num 1"] s1 s2 s3 q)
qed

lemma tie_measurements:
  "measurements tie_vitals
   = [''high'', ''high'', ''moderate'', ''moderate'', ''moderate'', ''high'']"
  "measurements tie_vitals_sorted
   = [''high'', ''high'', ''high'', ''moderate'', ''moderate'', ''moderate'']"
  by (simp_all add: measurements_def tie_vitals_sorted_def tie_vitals_def sample_vitals_def
      calculateStressLevel_def Let_def js_gt_def)

lemma sample_measurements:
  "measurements sample_vitals
   = [''high'', ''moderate'', ''moderate'', ''low'', ''moderate'', ''high'']"
  by (simp add: measurements_def sample_vitals_def calculateStressLevel_def Let_def js_gt_def)

lemma score_labels:
  assumes "set (measurements v) \<subseteq> {''high'', ''moderate'', ''low''}"
  shows "score_oc (calculateOverallConfidence v)
         = fl_div (foldl fl_add (Num 0) (map label_double (measurements v))) (Num 6)"
  by (simp add: calculateOverallConfidence_def Let_def confidenceScore_labels [OF assms]
      length_measurements)

lemma level_of_score:
  "level_oc (calculateOverallConfidence v)
   = (if js_gt (score_oc (calculateOverallConfidence v)) (fl (8 / 10)) then ''high''
      else if js_gt (score_oc (calculateOverallConfidence v)) (fl (5 / 10)) then ''moderate''
      else ''low'')"
  by (simp add: calculateOverallConfidence_def Let_def)

text \<open>
  C9, as the claim states it, fails. With the labels high, high, moderate, moderate,
  moderate, high the exact average of the weights is 0.8, which does not exceed 0.8, so
  that the claim gives \<open>moderate\<close>; the running sum of the program is rounded to
  \<open>4.800000000000001\<close>, the score is \<open>0.8000000000000002\<close>, and the level is \<open>high\<close>.
\<close>

theorem overall_confidence_counterexample:
  "measurements tie_vitals
     = [''high'', ''high'', ''moderate'', ''moderate'', ''moderate'', ''high'']
   \<and> exact_average (measurements tie_vitals) = 8 / 10
   \<and> bucket (exact_average (measurements tie_vitals)) = ''moderate''
   \<and> score_oc (calculateOverallConfidence tie_vitals) = Num (7205759403792795 / 9007199254740992)
   \<and> level_oc (calculateOverallConfidence tie_vitals) = ''high''
   \<and> level_oc (calculateOverallConfidence tie_vitals)
     \<noteq> bucket (exact_average (measurements tie_vitals))"
proof -
  have "set (measurements tie_vitals) \<subseteq> {''high'', ''moderate'', ''low''}"
    by (simp add: tie_measurements)
  from score_labels [OF this]
  have "score_oc (calculateOverallConfidence tie_vitals) = Num (7205759403792795 / 9007199254740992)"
    by (simp only: tie_measurements tie_score)
  then show ?thesis
    by (simp add: level_of_score [of tie_vitals] tie_measurements exact_average_def
        label_weight_def bucket_def js_gt_def fl_eight_tenths fl_half)
qed

text \<open>
  C9, amended. When the six primary metrics carry labels among \<open>high\<close>, \<open>moderate\<close> and
  \<open>low\<close>, the score of \<open>calculateOverallConfidence\<close> is the binary64 average of their
  weights: the weights \<open>1\<close>, \<open>0.6\<close> and \<open>0.3\<close> as binary64 values, added from the left in
  the order of the six metrics with every sum rounded, and the sum divided by six and
  rounded. The level is \<open>high\<close> when that score exceeds the binary64 value of \<open>0.8\<close>,
  \<open>moderate\<close> when it exceeds \<open>0.5\<close> and \<open>low\<close> otherwise. The score is within \<open>2^-49\<close> of
  the exact average, and the level is the bucket of the exact average whenever the exact
  average is neither 0.8 nor 0.5. Score and level are a function of the six labels alone.
\<close>

theorem overall_confidence:
  assumes "set (measurements v) \<subseteq> {''high'', ''moderate'', ''low''}"
  shows "score_oc (calculateOverallConfidence v)
           = fl_div (foldl fl_add (Num 0) (map label_double (measurements v))) (Num 6)
    \<and> level_oc (calculateOverallConfidence v)
           = (if js_gt (score_oc (calculateOverallConfidence v)) (fl (8 / 10)) then ''high''
              else if js_gt (score_oc (calculateOverallConfidence v)) (fl (5 / 10))
              then ''moderate'' else ''low'')
    \<and> (\<exists>a. score_oc (calculateOverallConfidence v) = Num a
            \<and> \<bar>a - exact_average (measurements v)\<bar> \<le> 1 / 2 ^ 49)
    \<and> (exact_average (measurements v) \<noteq> 8 / 10 \<and> exact_average (measurements v) \<noteq> 5 / 10
        \<longrightarrow> level_oc (calculateOverallConfidence v) = bucket (exact_average (measurements v)))
    \<and> (measurements v' = measurements v \<longrightarrow>
          score_oc (calculateOverallConfidence v') = score_oc (calculateOverallConfidence v)
          \<and> level_oc (calculateOverallConfidence v') = level_oc (calculateOverallConfidence v))"
proof -
  have "measurements v' = measurements v \<longrightarrow>
          score_oc (calculateOverallConfidence v') = score_oc (calculateOverallConfidence v)
          \<and> level_oc (calculateOverallConfidence v') = level_oc (calculateOverallConfidence v)"
    by (simp add: calculateOverallConfidence_def Let_def)
  with score_labels [OF assms] level_of_score [of v] score_near [OF assms] level_exact [OF assms]
  show ?thesis by blast
qed

theorem overall_confidence_witness:
  "set (measurements sample_vitals) \<subseteq> {''high'', ''moderate'', ''low''}
   \<and> exact_average (measurements sample_vitals) = 41 / 60
   \<and> level_oc (calculateOverallConfidence sample_vitals) = ''moderate''
   \<and> set (measurements tie_vitals_sorted) \<subseteq> {''high'', ''moderate'', ''low''}
   \<and> exact_average (measurements tie_vitals_sorted) = 8 / 10
   \<and> score_oc (calculateOverallConfidence tie_vitals_sorted) = Num (7205759403792793 / 9007199254740992)
   \<and> level_oc (calculateOverallConfidence tie_vitals_sorted) = ''moderate''"
proof -
  have a: "set (measurements sample_vitals) \<subseteq> {''high'', ''moderate'', ''low''}"
    by (simp add: sample_measurements)
  have b: "set (measurements tie_vitals_sorted) \<subseteq> {''high'', ''moderate'', ''low''}"
    by (simp add: tie_measurements)
  have e: "exact_average (measurements sample_vitals) = 41 / 60"
    by (simp add: sample_measurements exact_average_def label_weight_def)
  from overall_confidence [OF a, of sample_vitals]
  have "exact_average (measurements sample_vitals) \<noteq> 8 / 10
        \<and> exact_average (measurements sample_vitals) \<noteq> 5 / 10
        \<longrightarrow> level_oc (calculateOverallConfidence sample_vitals)
            = bucket (exact_average (measurements sample_vitals))"
    by blast
  then have "level_oc (calculateOverallConfidence sample_vitals) = ''moderate''"
    by (simp add: e bucket_def)
  moreover from overall_confidence [OF b, of tie_vitals_sorted]
  have sc: "score_oc (calculateOverallConfidence tie_vitals_sorted)
      = fl_div (foldl fl_add (Num 0) (map label_double (measurements tie_vitals_sorted)))
               (Num 6)"
    and lv: "level_oc (calculateOverallConfidence tie_vitals_sorted)
      = (if js_gt (score_oc (calculateOverallConfidence tie_vitals_sorted)) (fl (8 / 10))
         then ''high''
         else if js_gt (score_oc (calculateOverallConfidence tie_vitals_sorted)) (fl (5 / 10))
         then ''moderate'' else ''low'')"
    by blast+
  have sc': "score_oc (calculateOverallConfidence tie_vitals_sorted)
      = Num (7205759403792793 / 9007199254740992)"
    using sc by (simp only: tie_measurements tie_sorted_score)
  have "level_oc (calculateOverallConfidence tie_vitals_sorted) = ''moderate''"
    unfolding lv sc' by (simp add: js_gt_def fl_eight_tenths fl_half)
  ultimately show ?thesis
    using a b e sc' by (simp add: tie_measurements exact_average_def label_weight_def)
qed

end
